theory Spec2Isabelle
  imports Main "HOL-Library.Word"
begin

unbundle bit_operations_syntax

section \<open>The machine state\<close>

text \<open>
  The emulator keeps its state in three global objects, \<^verbatim>\<open>Memory\<close>, \<^verbatim>\<open>CPU\<close> and
  \<^verbatim>\<open>PPU\<close>, which every function mutates directly.  The record below holds every
  mutable field of the three objects; each function of the source becomes a function
  that takes the record and returns the updated one (together with its return value
  when it has one).

  \<^item> \<^verbatim>\<open>Memory.data\<close> and \<^verbatim>\<open>Memory.ppuMemory\<close> are \<^verbatim>\<open>Uint8Array\<close>s: their cells are
    8-bit words.  Every index the source uses is masked into the array first, so the
    arrays are total functions from the index.
  \<^item> The registers and the status flags are plain JavaScript numbers and booleans.
    Numbers are modelled as \<^typ>\<open>int\<close>; the bitwise operators of the source
    (\<^verbatim>\<open>&\<close>, \<^verbatim>\<open>|\<close>, \<^verbatim>\<open>^\<close>, \<^verbatim>\<open><<\<close>, \<^verbatim>\<open>>>\<close>) are the two's-complement
    operations on \<^typ>\<open>int\<close>, which agree with JavaScript on every value in the signed
    32-bit range.  Nothing in the source masks a register when it is assigned, so the
    model does not either.
\<close>

record nes =
  Memory_data :: "int \<Rightarrow> 8 word"
  Memory_ppuMemory :: "int \<Rightarrow> 8 word"
  CPU_A :: int
  CPU_X :: int
  CPU_Y :: int
  CPU_PC :: int
  CPU_SP :: int
  BreakFlag :: bool
  CarryFlag :: bool
  DecimalModeFlag :: bool
  InterruptFlag :: bool
  NegativeFlag :: bool
  OverflowFlag :: bool
  ZeroFlag :: bool
  PPU_ctrl :: int
  PPU_mask :: int
  PPU_status :: int
  PPU_oamAddr :: int
  PPU_oamData :: int
  PPU_scroll :: int
  PPU_addr :: int
  PPU_data :: int
  PPU_currentScanline :: int

text \<open>The values the object literals of the source give every field at load time.\<close>

definition initial_state :: nes where
  "initial_state = \<lparr>
     Memory_data = (\<lambda>_. 0), Memory_ppuMemory = (\<lambda>_. 0),
     CPU_A = 0x00, CPU_X = 0x00, CPU_Y = 0x00, CPU_PC = 0x8000, CPU_SP = 0xFD,
     BreakFlag = False, CarryFlag = False, DecimalModeFlag = False,
     InterruptFlag = False, NegativeFlag = False, OverflowFlag = False,
     ZeroFlag = False,
     PPU_ctrl = 0x00, PPU_mask = 0x00, PPU_status = 0x00, PPU_oamAddr = 0x00,
     PPU_oamData = 0x00, PPU_scroll = 0x00, PPU_addr = 0x00, PPU_data = 0x00,
     PPU_currentScanline = 0 \<rparr>"

section \<open>Memory\<close>

text \<open>
  \<^verbatim>\<open>Memory.read\<close> returns a value and assigns nothing; the state it returns is the
  state it was given.
\<close>

definition Memory_read :: "int \<Rightarrow> nes \<Rightarrow> int \<times> nes" where
  "Memory_read address0 s =
     (let address = address0 AND 0xFFFF in
      if address < 0x2000 then (uint (Memory_data s (address AND 0x07FF)), s)
      else if address \<ge> 0x2000 \<and> address < 0x4000
        then (uint (Memory_data s (address AND 0x2007)), s)
      else if address \<ge> 0x4000 \<and> address \<le> 0x401F
        then (uint (Memory_data s address), s)
      else if address \<ge> 0x4020 then (uint (Memory_data s address), s)
      else (0, s))"

definition Memory_write :: "int \<Rightarrow> int \<Rightarrow> nes \<Rightarrow> nes" where
  "Memory_write address0 val0 s =
     (let address = address0 AND 0xFFFF;
          val = val0 AND 0xFF in
      if address < 0x2000
        then s\<lparr>Memory_data := (Memory_data s)(address AND 0x07FF := word_of_int val)\<rparr>
      else if address \<ge> 0x2000 \<and> address < 0x4000
        then s\<lparr>Memory_data := (Memory_data s)(address AND 0x2007 := word_of_int val)\<rparr>
      else if address \<ge> 0x4000 \<and> address \<le> 0x401F
        then s\<lparr>Memory_data := (Memory_data s)(address := word_of_int val)\<rparr>
      else if address \<ge> 0x4020
        then s\<lparr>Memory_data := (Memory_data s)(address := word_of_int val)\<rparr>
      else s)"

definition ppuRead :: "int \<Rightarrow> nes \<Rightarrow> int \<times> nes" where
  "ppuRead address0 s =
     (let address = address0 AND 0x3FFF in (uint (Memory_ppuMemory s address), s))"

definition ppuWrite :: "int \<Rightarrow> int \<Rightarrow> nes \<Rightarrow> nes" where
  "ppuWrite address0 val s =
     (let address = address0 AND 0x3FFF in
      s\<lparr>Memory_ppuMemory := (Memory_ppuMemory s)(address := word_of_int val)\<rparr>)"

section \<open>CPU\<close>

definition CPU_reset :: "nes \<Rightarrow> nes" where
  "CPU_reset s =
     s\<lparr>CPU_A := 0x00, CPU_X := 0x00, CPU_Y := 0x00, CPU_PC := 0x8000, CPU_SP := 0xFD\<rparr>"

definition getStatusFlags :: "nes \<Rightarrow> int" where
  "getStatusFlags s =
     (if CarryFlag s then 0x01 else 0) OR
     (if ZeroFlag s then 0x02 else 0) OR
     (if InterruptFlag s then 0x04 else 0) OR
     (if DecimalModeFlag s then 0x08 else 0) OR
     (if BreakFlag s then 0x10 else 0) OR
     (if OverflowFlag s then 0x40 else 0) OR
     (if NegativeFlag s then 0x80 else 0)"

definition setFlags :: "int \<Rightarrow> nes \<Rightarrow> nes" where
  "setFlags val s =
     s\<lparr>CarryFlag := (val AND 0x01 \<noteq> 0),
       ZeroFlag := (val AND 0x02 \<noteq> 0),
       InterruptFlag := (val AND 0x04 \<noteq> 0),
       DecimalModeFlag := (val AND 0x08 \<noteq> 0),
       BreakFlag := (val AND 0x10 \<noteq> 0),
       OverflowFlag := (val AND 0x40 \<noteq> 0),
       NegativeFlag := (val AND 0x80 \<noteq> 0)\<rparr>"

definition readMemory :: "int \<Rightarrow> nes \<Rightarrow> int \<times> nes" where
  "readMemory address s = Memory_read address s"

definition writeMemory :: "int \<Rightarrow> int \<Rightarrow> nes \<Rightarrow> nes" where
  "writeMemory address val s = Memory_write address val s"

subsection \<open>Addressing modes\<close>

text \<open>
  Each addressing mode returns a number and advances \<^verbatim>\<open>CPU.PC\<close> past the operand
  bytes it fetched.  \<^verbatim>\<open>CPU.PC += 1\<close> is a plain addition: the source never masks the
  program counter, only \<^verbatim>\<open>Memory.read\<close> masks the address it is given.
\<close>

definition Absolute :: "nes \<Rightarrow> int \<times> nes" where
  "Absolute s =
     (case readMemory (CPU_PC s) s of (lowByte, s1) \<Rightarrow>
      let s2 = s1\<lparr>CPU_PC := CPU_PC s1 + 1\<rparr> in
      case readMemory (CPU_PC s2) s2 of (highByte, s3) \<Rightarrow>
      let s4 = s3\<lparr>CPU_PC := CPU_PC s3 + 1\<rparr> in
      (push_bit 8 highByte OR lowByte, s4))"

definition AbsoluteX :: "nes \<Rightarrow> int \<times> nes" where
  "AbsoluteX s =
     (case Absolute s of (baseAddress, s1) \<Rightarrow>
      ((baseAddress + CPU_X s1) AND 0xFFFF, s1))"

definition AbsoluteY :: "nes \<Rightarrow> int \<times> nes" where
  "AbsoluteY s =
     (case Absolute s of (baseAddress, s1) \<Rightarrow>
      ((baseAddress + CPU_Y s1) AND 0xFFFF, s1))"

definition Accumulator :: "nes \<Rightarrow> int \<times> nes" where
  "Accumulator s = (CPU_A s, s)"

definition Immediate :: "nes \<Rightarrow> int \<times> nes" where
  "Immediate s =
     (case readMemory (CPU_PC s) s of (operand, s1) \<Rightarrow>
      (operand, s1\<lparr>CPU_PC := CPU_PC s1 + 1\<rparr>))"

definition IndX :: "nes \<Rightarrow> int \<times> nes" where
  "IndX s =
     (case readMemory (CPU_PC s) s of (b, s1) \<Rightarrow>
      let zeroPageAddress = (b + CPU_X s1) AND 0xFF;
          s2 = s1\<lparr>CPU_PC := CPU_PC s1 + 1\<rparr> in
      case readMemory zeroPageAddress s2 of (lowByte, s3) \<Rightarrow>
      case readMemory ((zeroPageAddress + 1) AND 0xFF) s3 of (highByte, s4) \<Rightarrow>
      (push_bit 8 highByte OR lowByte, s4))"

definition IndY :: "nes \<Rightarrow> int \<times> nes" where
  "IndY s =
     (case readMemory (CPU_PC s) s of (zeroPageAddress, s1) \<Rightarrow>
      let s2 = s1\<lparr>CPU_PC := CPU_PC s1 + 1\<rparr> in
      case readMemory zeroPageAddress s2 of (lowByte, s3) \<Rightarrow>
      case readMemory ((zeroPageAddress + 1) AND 0xFF) s3 of (highByte, s4) \<Rightarrow>
      let baseAddress = push_bit 8 highByte OR lowByte in
      ((baseAddress + CPU_Y s4) AND 0xFFFF, s4))"

definition Indirect :: "nes \<Rightarrow> int \<times> nes" where
  "Indirect s =
     (case readMemory (CPU_PC s) s of (lowByte, s1) \<Rightarrow>
      let s2 = s1\<lparr>CPU_PC := CPU_PC s1 + 1\<rparr> in
      case readMemory (CPU_PC s2) s2 of (highByte, s3) \<Rightarrow>
      let s4 = s3\<lparr>CPU_PC := CPU_PC s3 + 1\<rparr>;
          pointer = push_bit 8 highByte OR lowByte in
      case readMemory pointer s4 of (effectiveLowByte, s5) \<Rightarrow>
      case readMemory ((pointer AND 0xFF00) OR ((pointer + 1) AND 0xFF)) s5
        of (effectiveHighByte, s6) \<Rightarrow>
      (push_bit 8 effectiveHighByte OR effectiveLowByte, s6))"

definition Relative :: "nes \<Rightarrow> int \<times> nes" where
  "Relative s =
     (case readMemory (CPU_PC s) s of (offset, s1) \<Rightarrow>
      let s2 = s1\<lparr>CPU_PC := CPU_PC s1 + 1\<rparr> in
      if offset < 0x80 then (CPU_PC s2 + offset, s2)
      else (CPU_PC s2 + offset - 0x100, s2))"

definition ZeroPage :: "nes \<Rightarrow> int \<times> nes" where
  "ZeroPage s =
     (case readMemory (CPU_PC s) s of (address, s1) \<Rightarrow>
      (address, s1\<lparr>CPU_PC := CPU_PC s1 + 1\<rparr>))"

definition ZeroPageX :: "nes \<Rightarrow> int \<times> nes" where
  "ZeroPageX s =
     (case readMemory (CPU_PC s) s of (b, s1) \<Rightarrow>
      let address = (b + CPU_X s1) AND 0xFF in
      (address, s1\<lparr>CPU_PC := CPU_PC s1 + 1\<rparr>))"

definition ZeroPageY :: "nes \<Rightarrow> int \<times> nes" where
  "ZeroPageY s =
     (case readMemory (CPU_PC s) s of (b, s1) \<Rightarrow>
      let address = (b + CPU_Y s1) AND 0xFF in
      (address, s1\<lparr>CPU_PC := CPU_PC s1 + 1\<rparr>))"

subsection \<open>Instruction set\<close>

text \<open>
  Every function of \<^verbatim>\<open>CPU.instruction_set\<close>, in the order of the source.  The
  argument is whatever number the dispatcher passes: the functions do not mask it.
\<close>

definition ADC :: "int \<Rightarrow> nes \<Rightarrow> nes" where
  "ADC operand s =
     (let carry = (if CarryFlag s then 1 else 0);
          result = CPU_A s + operand + carry in
      s\<lparr>CarryFlag := (result > 0xFF),
        ZeroFlag := (result AND 0xFF = 0),
        NegativeFlag := (result AND 0x80 \<noteq> 0),
        OverflowFlag := (((CPU_A s XOR result) AND (operand XOR result)) AND 0x80 \<noteq> 0),
        CPU_A := result AND 0xFF\<rparr>)"

definition AND_instr :: "int \<Rightarrow> nes \<Rightarrow> nes" where
  "AND_instr operand s =
     (let s1 = s\<lparr>CPU_A := CPU_A s AND operand\<rparr> in
      s1\<lparr>ZeroFlag := (CPU_A s1 = 0),
         NegativeFlag := (CPU_A s1 AND 0x80 \<noteq> 0)\<rparr>)"

definition ASL_A :: "nes \<Rightarrow> nes" where
  "ASL_A s =
     (let s1 = s\<lparr>CarryFlag := (CPU_A s AND 0x80 \<noteq> 0)\<rparr>;
          s2 = s1\<lparr>CPU_A := push_bit 1 (CPU_A s1) AND 0xFF\<rparr> in
      s2\<lparr>ZeroFlag := (CPU_A s2 = 0),
         NegativeFlag := (CPU_A s2 AND 0x80 \<noteq> 0)\<rparr>)"

definition ASL :: "int \<Rightarrow> nes \<Rightarrow> nes" where
  "ASL address s =
     (case readMemory address s of (val0, s1) \<Rightarrow>
      let s2 = s1\<lparr>CarryFlag := (val0 AND 0x80 \<noteq> 0)\<rparr>;
          val = push_bit 1 val0 AND 0xFF;
          s3 = writeMemory address val s2 in
      s3\<lparr>ZeroFlag := (val = 0),
         NegativeFlag := (val AND 0x80 \<noteq> 0)\<rparr>)"

definition BCC :: "int \<Rightarrow> nes \<Rightarrow> nes" where
  "BCC operand s = (if \<not> CarryFlag s then s\<lparr>CPU_PC := operand\<rparr> else s)"

definition BCS :: "int \<Rightarrow> nes \<Rightarrow> nes" where
  "BCS operand s = (if CarryFlag s then s\<lparr>CPU_PC := operand\<rparr> else s)"

definition BEQ :: "int \<Rightarrow> nes \<Rightarrow> nes" where
  "BEQ operand s = (if ZeroFlag s then s\<lparr>CPU_PC := operand\<rparr> else s)"

definition BNE :: "int \<Rightarrow> nes \<Rightarrow> nes" where
  "BNE operand s = (if \<not> ZeroFlag s then s\<lparr>CPU_PC := operand\<rparr> else s)"

definition BMI :: "int \<Rightarrow> nes \<Rightarrow> nes" where
  "BMI operand s = (if NegativeFlag s then s\<lparr>CPU_PC := operand\<rparr> else s)"

definition BPL :: "int \<Rightarrow> nes \<Rightarrow> nes" where
  "BPL operand s = (if \<not> NegativeFlag s then s\<lparr>CPU_PC := operand\<rparr> else s)"

definition BVS :: "int \<Rightarrow> nes \<Rightarrow> nes" where
  "BVS operand s = (if OverflowFlag s then s\<lparr>CPU_PC := operand\<rparr> else s)"

definition BVC :: "int \<Rightarrow> nes \<Rightarrow> nes" where
  "BVC operand s = (if \<not> OverflowFlag s then s\<lparr>CPU_PC := operand\<rparr> else s)"

definition BIT_instr :: "int \<Rightarrow> nes \<Rightarrow> nes" where
  "BIT_instr operand s =
     (case readMemory operand s of (val, s1) \<Rightarrow>
      s1\<lparr>ZeroFlag := (CPU_A s1 AND val = 0),
         OverflowFlag := (val AND 0x40 \<noteq> 0),
         NegativeFlag := (val AND 0x80 \<noteq> 0)\<rparr>)"

definition BRK :: "nes \<Rightarrow> nes" where
  "BRK s =
     (let s1 = s\<lparr>CPU_PC := CPU_PC s + 1\<rparr>;
          s2 = writeMemory (0x0100 + CPU_SP s1) (drop_bit 8 (CPU_PC s1) AND 0xFF) s1;
          s3 = s2\<lparr>CPU_SP := (CPU_SP s2 - 1) AND 0xFF\<rparr>;
          s4 = writeMemory (0x0100 + CPU_SP s3) (CPU_PC s3 AND 0xFF) s3;
          s5 = s4\<lparr>CPU_SP := (CPU_SP s4 - 1) AND 0xFF\<rparr>;
          status = getStatusFlags s5 OR 0x10;
          s6 = writeMemory (0x0100 + CPU_SP s5) status s5;
          s7 = s6\<lparr>CPU_SP := (CPU_SP s6 - 1) AND 0xFF\<rparr>;
          s8 = s7\<lparr>InterruptFlag := True\<rparr> in
      case readMemory 0xFFFE s8 of (lowByte, s9) \<Rightarrow>
      case readMemory 0xFFFF s9 of (highByte, s10) \<Rightarrow>
      s10\<lparr>CPU_PC := push_bit 8 highByte OR lowByte\<rparr>)"

definition CLC :: "nes \<Rightarrow> nes" where
  "CLC s = s\<lparr>CarryFlag := False\<rparr>"

definition CLD :: "nes \<Rightarrow> nes" where
  "CLD s = s\<lparr>DecimalModeFlag := False\<rparr>"

definition CLI :: "nes \<Rightarrow> nes" where
  "CLI s = s\<lparr>InterruptFlag := False\<rparr>"

definition CLV :: "nes \<Rightarrow> nes" where
  "CLV s = s\<lparr>OverflowFlag := False\<rparr>"

definition CMP :: "int \<Rightarrow> nes \<Rightarrow> nes" where
  "CMP operand s =
     (let result = CPU_A s - operand in
      s\<lparr>CarryFlag := (CPU_A s \<ge> operand),
        ZeroFlag := (result AND 0xFF = 0),
        NegativeFlag := (result AND 0x80 \<noteq> 0)\<rparr>)"

definition CPX :: "int \<Rightarrow> nes \<Rightarrow> nes" where
  "CPX operand s =
     (let result = CPU_X s - operand in
      s\<lparr>CarryFlag := (CPU_X s \<ge> operand),
        ZeroFlag := (result AND 0xFF = 0),
        NegativeFlag := (result AND 0x80 \<noteq> 0)\<rparr>)"

definition CPY :: "int \<Rightarrow> nes \<Rightarrow> nes" where
  "CPY operand s =
     (let result = CPU_Y s - operand in
      s\<lparr>CarryFlag := (CPU_Y s \<ge> operand),
        ZeroFlag := (result AND 0xFF = 0),
        NegativeFlag := (result AND 0x80 \<noteq> 0)\<rparr>)"

definition DEC :: "int \<Rightarrow> nes \<Rightarrow> nes" where
  "DEC address s =
     (case readMemory address s of (b, s1) \<Rightarrow>
      let val = (b - 1) AND 0xFF;
          s2 = writeMemory address val s1 in
      s2\<lparr>ZeroFlag := (val = 0),
         NegativeFlag := (val AND 0x80 \<noteq> 0)\<rparr>)"

definition DEX :: "nes \<Rightarrow> nes" where
  "DEX s =
     (let s1 = s\<lparr>CPU_X := (CPU_X s - 1) AND 0xFF\<rparr> in
      s1\<lparr>ZeroFlag := (CPU_X s1 = 0),
         NegativeFlag := (CPU_X s1 AND 0x80 \<noteq> 0)\<rparr>)"

definition DEY :: "nes \<Rightarrow> nes" where
  "DEY s =
     (let s1 = s\<lparr>CPU_Y := (CPU_Y s - 1) AND 0xFF\<rparr> in
      s1\<lparr>ZeroFlag := (CPU_Y s1 = 0),
         NegativeFlag := (CPU_Y s1 AND 0x80 \<noteq> 0)\<rparr>)"

definition EOR :: "int \<Rightarrow> nes \<Rightarrow> nes" where
  "EOR operand s =
     (let s1 = s\<lparr>CPU_A := CPU_A s XOR operand\<rparr> in
      s1\<lparr>ZeroFlag := (CPU_A s1 = 0),
         NegativeFlag := (CPU_A s1 AND 0x80 \<noteq> 0)\<rparr>)"

definition INC :: "int \<Rightarrow> nes \<Rightarrow> nes" where
  "INC address s =
     (case readMemory address s of (b, s1) \<Rightarrow>
      let val = (b + 1) AND 0xFF;
          s2 = writeMemory address val s1 in
      s2\<lparr>ZeroFlag := (val = 0),
         NegativeFlag := (val AND 0x80 \<noteq> 0)\<rparr>)"

definition INX :: "nes \<Rightarrow> nes" where
  "INX s =
     (let s1 = s\<lparr>CPU_X := (CPU_X s + 1) AND 0xFF\<rparr> in
      s1\<lparr>ZeroFlag := (CPU_X s1 = 0),
         NegativeFlag := (CPU_X s1 AND 0x80 \<noteq> 0)\<rparr>)"

definition INY :: "nes \<Rightarrow> nes" where
  "INY s =
     (let s1 = s\<lparr>CPU_Y := (CPU_Y s + 1) AND 0xFF\<rparr> in
      s1\<lparr>ZeroFlag := (CPU_Y s1 = 0),
         NegativeFlag := (CPU_Y s1 AND 0x80 \<noteq> 0)\<rparr>)"

definition JMP_ABS :: "int \<Rightarrow> nes \<Rightarrow> nes" where
  "JMP_ABS address s = s\<lparr>CPU_PC := address\<rparr>"

definition JMP_IND :: "int \<Rightarrow> nes \<Rightarrow> nes" where
  "JMP_IND address s =
     (case readMemory address s of (lowByte, s1) \<Rightarrow>
      let highByteAddress = (address AND 0xFF00) OR ((address + 1) AND 0xFF) in
      case readMemory highByteAddress s1 of (highByte, s2) \<Rightarrow>
      s2\<lparr>CPU_PC := push_bit 8 highByte OR lowByte\<rparr>)"

definition JSR :: "int \<Rightarrow> nes \<Rightarrow> nes" where
  "JSR address s =
     (let returnAddress = CPU_PC s - 1;
          s1 = writeMemory (0x0100 + CPU_SP s) (drop_bit 8 returnAddress AND 0xFF) s;
          s2 = s1\<lparr>CPU_SP := (CPU_SP s1 - 1) AND 0xFF\<rparr>;
          s3 = writeMemory (0x0100 + CPU_SP s2) (returnAddress AND 0xFF) s2;
          s4 = s3\<lparr>CPU_SP := (CPU_SP s3 - 1) AND 0xFF\<rparr> in
      s4\<lparr>CPU_PC := address\<rparr>)"

definition LDA :: "int \<Rightarrow> nes \<Rightarrow> nes" where
  "LDA operand s =
     (let s1 = s\<lparr>CPU_A := operand\<rparr> in
      s1\<lparr>ZeroFlag := (CPU_A s1 = 0),
         NegativeFlag := (CPU_A s1 AND 0x80 \<noteq> 0)\<rparr>)"

definition LDX :: "int \<Rightarrow> nes \<Rightarrow> nes" where
  "LDX operand s =
     (let s1 = s\<lparr>CPU_X := operand\<rparr> in
      s1\<lparr>ZeroFlag := (CPU_X s1 = 0),
         NegativeFlag := (CPU_X s1 AND 0x80 \<noteq> 0)\<rparr>)"

definition LDY :: "int \<Rightarrow> nes \<Rightarrow> nes" where
  "LDY operand s =
     (let s1 = s\<lparr>CPU_Y := operand\<rparr> in
      s1\<lparr>ZeroFlag := (CPU_Y s1 = 0),
         NegativeFlag := (CPU_Y s1 AND 0x80 \<noteq> 0)\<rparr>)"

definition LSR_A :: "nes \<Rightarrow> nes" where
  "LSR_A s =
     (let s1 = s\<lparr>CarryFlag := (CPU_A s AND 0x01 \<noteq> 0)\<rparr>;
          s2 = s1\<lparr>CPU_A := drop_bit 1 (CPU_A s1)\<rparr> in
      s2\<lparr>ZeroFlag := (CPU_A s2 = 0),
         NegativeFlag := False\<rparr>)"

definition LSR :: "int \<Rightarrow> nes \<Rightarrow> nes" where
  "LSR address s =
     (case readMemory address s of (val0, s1) \<Rightarrow>
      let s2 = s1\<lparr>CarryFlag := (val0 AND 0x01 \<noteq> 0)\<rparr>;
          val = drop_bit 1 val0;
          s3 = writeMemory address val s2 in
      s3\<lparr>ZeroFlag := (val = 0),
         NegativeFlag := False\<rparr>)"

definition NOP :: "nes \<Rightarrow> nes" where
  "NOP s = s"

definition ORA :: "int \<Rightarrow> nes \<Rightarrow> nes" where
  "ORA operand s =
     (let s1 = s\<lparr>CPU_A := CPU_A s OR operand\<rparr> in
      s1\<lparr>ZeroFlag := (CPU_A s1 = 0),
         NegativeFlag := (CPU_A s1 AND 0x80 \<noteq> 0)\<rparr>)"

definition PHA :: "nes \<Rightarrow> nes" where
  "PHA s =
     (let s1 = writeMemory (0x0100 + CPU_SP s) (CPU_A s) s in
      s1\<lparr>CPU_SP := (CPU_SP s1 - 1) AND 0xFF\<rparr>)"

definition PHP :: "nes \<Rightarrow> nes" where
  "PHP s =
     (let status = getStatusFlags s OR 0x10;
          s1 = writeMemory (0x0100 + CPU_SP s) status s in
      s1\<lparr>CPU_SP := (CPU_SP s1 - 1) AND 0xFF\<rparr>)"

definition PLA :: "nes \<Rightarrow> nes" where
  "PLA s =
     (let s1 = s\<lparr>CPU_SP := (CPU_SP s + 1) AND 0xFF\<rparr> in
      case readMemory (0x0100 + CPU_SP s1) s1 of (b, s2) \<Rightarrow>
      let s3 = s2\<lparr>CPU_A := b\<rparr> in
      s3\<lparr>ZeroFlag := (CPU_A s3 = 0),
         NegativeFlag := (CPU_A s3 AND 0x80 \<noteq> 0)\<rparr>)"

definition PLP :: "nes \<Rightarrow> nes" where
  "PLP s =
     (let s1 = s\<lparr>CPU_SP := (CPU_SP s + 1) AND 0xFF\<rparr> in
      case readMemory (0x0100 + CPU_SP s1) s1 of (status, s2) \<Rightarrow>
      setFlags status s2)"

definition ROL_A :: "nes \<Rightarrow> nes" where
  "ROL_A s =
     (let carry = (if CarryFlag s then 1 else 0);
          s1 = s\<lparr>CarryFlag := (CPU_A s AND 0x80 \<noteq> 0)\<rparr>;
          s2 = s1\<lparr>CPU_A := (push_bit 1 (CPU_A s1) OR carry) AND 0xFF\<rparr> in
      s2\<lparr>ZeroFlag := (CPU_A s2 = 0),
         NegativeFlag := (CPU_A s2 AND 0x80 \<noteq> 0)\<rparr>)"

definition ROL :: "int \<Rightarrow> nes \<Rightarrow> nes" where
  "ROL address s =
     (case readMemory address s of (val0, s1) \<Rightarrow>
      let carry = (if CarryFlag s1 then 1 else 0);
          s2 = s1\<lparr>CarryFlag := (val0 AND 0x80 \<noteq> 0)\<rparr>;
          val = (push_bit 1 val0 OR carry) AND 0xFF;
          s3 = writeMemory address val s2 in
      s3\<lparr>ZeroFlag := (val = 0),
         NegativeFlag := (val AND 0x80 \<noteq> 0)\<rparr>)"

definition ROR_A :: "nes \<Rightarrow> nes" where
  "ROR_A s =
     (let carry = (if CarryFlag s then 0x80 else 0);
          s1 = s\<lparr>CarryFlag := (CPU_A s AND 0x01 \<noteq> 0)\<rparr>;
          s2 = s1\<lparr>CPU_A := drop_bit 1 (CPU_A s1) OR carry\<rparr> in
      s2\<lparr>ZeroFlag := (CPU_A s2 = 0),
         NegativeFlag := (CPU_A s2 AND 0x80 \<noteq> 0)\<rparr>)"

definition ROR :: "int \<Rightarrow> nes \<Rightarrow> nes" where
  "ROR address s =
     (case readMemory address s of (val0, s1) \<Rightarrow>
      let carry = (if CarryFlag s1 then 0x80 else 0);
          s2 = s1\<lparr>CarryFlag := (val0 AND 0x01 \<noteq> 0)\<rparr>;
          val = drop_bit 1 val0 OR carry;
          s3 = writeMemory address val s2 in
      s3\<lparr>ZeroFlag := (val = 0),
         NegativeFlag := (val AND 0x80 \<noteq> 0)\<rparr>)"

definition RTI :: "nes \<Rightarrow> nes" where
  "RTI s =
     (let s1 = s\<lparr>CPU_SP := (CPU_SP s + 1) AND 0xFF\<rparr> in
      case readMemory (0x0100 + CPU_SP s1) s1 of (status, s2) \<Rightarrow>
      let s3 = setFlags status s2;
          s4 = s3\<lparr>CPU_SP := (CPU_SP s3 + 1) AND 0xFF\<rparr> in
      case readMemory (0x0100 + CPU_SP s4) s4 of (lo, s5) \<Rightarrow>
      let s6 = s5\<lparr>CPU_SP := (CPU_SP s5 + 1) AND 0xFF\<rparr> in
      case readMemory (0x0100 + CPU_SP s6) s6 of (hi, s7) \<Rightarrow>
      s7\<lparr>CPU_PC := push_bit 8 hi OR lo\<rparr>)"

definition RTS :: "nes \<Rightarrow> nes" where
  "RTS s =
     (let s1 = s\<lparr>CPU_SP := (CPU_SP s + 1) AND 0xFF\<rparr> in
      case readMemory (0x0100 + CPU_SP s1) s1 of (lo, s2) \<Rightarrow>
      let s3 = s2\<lparr>CPU_SP := (CPU_SP s2 + 1) AND 0xFF\<rparr> in
      case readMemory (0x0100 + CPU_SP s3) s3 of (hi, s4) \<Rightarrow>
      s4\<lparr>CPU_PC := (push_bit 8 hi OR lo) + 1\<rparr>)"

definition SBC :: "int \<Rightarrow> nes \<Rightarrow> nes" where
  "SBC operand s =
     (let carry = (if CarryFlag s then 0 else 1);
          temp0 = CPU_A s - operand - carry;
          s1 = s\<lparr>OverflowFlag :=
                 (((CPU_A s XOR temp0) AND 0x80 \<noteq> 0) \<and>
                  ((CPU_A s XOR operand) AND 0x80 \<noteq> 0))\<rparr>;
          s2 = s1\<lparr>CarryFlag := (temp0 \<ge> 0)\<rparr>;
          temp = temp0 AND 0xFF in
      s2\<lparr>ZeroFlag := (temp = 0),
         NegativeFlag := (temp AND 0x80 \<noteq> 0),
         CPU_A := temp\<rparr>)"

definition SEC :: "nes \<Rightarrow> nes" where
  "SEC s = s\<lparr>CarryFlag := True\<rparr>"

definition SED :: "nes \<Rightarrow> nes" where
  "SED s = s\<lparr>DecimalModeFlag := True\<rparr>"

definition SEI :: "nes \<Rightarrow> nes" where
  "SEI s = s\<lparr>InterruptFlag := True\<rparr>"

definition STA :: "int \<Rightarrow> nes \<Rightarrow> nes" where
  "STA address s = writeMemory address (CPU_A s) s"

definition STX :: "int \<Rightarrow> nes \<Rightarrow> nes" where
  "STX address s = writeMemory address (CPU_X s) s"

definition STY :: "int \<Rightarrow> nes \<Rightarrow> nes" where
  "STY address s = writeMemory address (CPU_Y s) s"

definition TAX :: "nes \<Rightarrow> nes" where
  "TAX s =
     (let s1 = s\<lparr>CPU_X := CPU_A s\<rparr> in
      s1\<lparr>ZeroFlag := (CPU_X s1 = 0),
         NegativeFlag := (CPU_X s1 AND 0x80 \<noteq> 0)\<rparr>)"

definition TAY :: "nes \<Rightarrow> nes" where
  "TAY s =
     (let s1 = s\<lparr>CPU_Y := CPU_A s\<rparr> in
      s1\<lparr>ZeroFlag := (CPU_Y s1 = 0),
         NegativeFlag := (CPU_Y s1 AND 0x80 \<noteq> 0)\<rparr>)"

definition TSX :: "nes \<Rightarrow> nes" where
  "TSX s =
     (let s1 = s\<lparr>CPU_X := CPU_SP s\<rparr> in
      s1\<lparr>ZeroFlag := (CPU_X s1 = 0),
         NegativeFlag := (CPU_X s1 AND 0x80 \<noteq> 0)\<rparr>)"

definition TXA :: "nes \<Rightarrow> nes" where
  "TXA s =
     (let s1 = s\<lparr>CPU_A := CPU_X s\<rparr> in
      s1\<lparr>ZeroFlag := (CPU_A s1 = 0),
         NegativeFlag := (CPU_A s1 AND 0x80 \<noteq> 0)\<rparr>)"

definition TXS :: "nes \<Rightarrow> nes" where
  "TXS s = s\<lparr>CPU_SP := CPU_X s\<rparr>"

definition TYA :: "nes \<Rightarrow> nes" where
  "TYA s =
     (let s1 = s\<lparr>CPU_A := CPU_Y s\<rparr> in
      s1\<lparr>ZeroFlag := (CPU_A s1 = 0),
         NegativeFlag := (CPU_A s1 AND 0x80 \<noteq> 0)\<rparr>)"

subsection \<open>Decode and execute\<close>

text \<open>
  The two statements of a case of the dispatcher, \<^verbatim>\<open>operand = mode(); instr(operand);\<close>.
\<close>

definition with_operand :: "(nes \<Rightarrow> int \<times> nes) \<Rightarrow> (int \<Rightarrow> nes \<Rightarrow> nes) \<Rightarrow> nes \<Rightarrow> nes" where
  "with_operand mode instr s = (case mode s of (operand, s1) \<Rightarrow> instr operand s1)"

text \<open>
  The \<^verbatim>\<open>switch\<close> of \<^verbatim>\<open>CPU.decodeAndExecute\<close>, case by case in the order of the source,
  each with the comment the source gives it.  The instruction a case calls is the one
  the source calls, whatever its comment says.  The accumulator cases assign
  \<^verbatim>\<open>operand = CPU.A\<close> and call a function that takes no argument; the assignment has no
  effect on the state modelled here.  The case \<open>0x6A\<close> makes no such assignment and
  passes the global \<^verbatim>\<open>operand\<close> to \<^verbatim>\<open>ROL_A\<close>, which takes no argument: reading the
  global throws a \<^verbatim>\<open>ReferenceError\<close> in a run where no earlier case has assigned it.
  The state does not record the global, so for \<open>0x6A\<close> the definition gives the state
  of a run in which it has been assigned; nothing below executes that opcode.  An
  opcode with no case only logs a message.
\<close>

definition dispatch :: "int \<Rightarrow> nes \<Rightarrow> nes" where
  "dispatch opcode s =
     (if opcode = 0x69 then with_operand Immediate ADC s  \<comment> \<open>ADC #n -- Immediate\<close>
      else if opcode = 0x6D then with_operand Absolute ADC s  \<comment> \<open>ADC nn -- Absolute\<close>
      else if opcode = 0x65 then with_operand ZeroPage ADC s  \<comment> \<open>ADC n -- Zero Page\<close>
      else if opcode = 0x61 then with_operand IndX ADC s  \<comment> \<open>ADC (n,X) -- Ind X\<close>
      else if opcode = 0x71 then with_operand IndY ADC s  \<comment> \<open>ADC (n),Y -- Ind Y\<close>
      else if opcode = 0x75 then with_operand ZeroPageX ADC s  \<comment> \<open>ADC n,X -- Zero Page X\<close>
      else if opcode = 0x7D then with_operand AbsoluteX ADC s  \<comment> \<open>ADC nn,X -- Absolute X\<close>
      else if opcode = 0x79 then with_operand AbsoluteY ADC s  \<comment> \<open>ADC NN,Y -- Absolute Y\<close>
      else if opcode = 0x29 then with_operand Immediate AND_instr s  \<comment> \<open>AND #n -- Immediate\<close>
      else if opcode = 0x2D then with_operand Absolute AND_instr s  \<comment> \<open>AND nn -- Absolute\<close>
      else if opcode = 0x25 then with_operand ZeroPage AND_instr s  \<comment> \<open>AND n -- Zero Page\<close>
      else if opcode = 0x21 then with_operand IndX AND_instr s  \<comment> \<open>AND (n,X) -- Ind Y\<close>
      else if opcode = 0x31 then with_operand IndY AND_instr s  \<comment> \<open>AND (n),Y -- Ind X\<close>
      else if opcode = 0x35 then with_operand ZeroPageX AND_instr s  \<comment> \<open>AND n,X -- Zero Page X\<close>
      else if opcode = 0x3D then with_operand AbsoluteX AND_instr s  \<comment> \<open>AND nn,X -- Absolute X\<close>
      else if opcode = 0x39 then with_operand AbsoluteY AND_instr s  \<comment> \<open>AND nn,Y -- Absolute Y\<close>
      else if opcode = 0x0E then with_operand Absolute ASL s  \<comment> \<open>ASL nn -- Absolute\<close>
      else if opcode = 0x06 then with_operand ZeroPage ASL s  \<comment> \<open>ASL n -- Zero Page\<close>
      else if opcode = 0x0A then ASL_A s  \<comment> \<open>ASL A -- Accumulator\<close>
      else if opcode = 0x16 then with_operand ZeroPageX ASL s  \<comment> \<open>ASL n,X -- Zero Page X\<close>
      else if opcode = 0x1E then with_operand AbsoluteX ASL s  \<comment> \<open>ASL nn,X -- Absolute X\<close>
      else if opcode = 0x90 then with_operand Relative BCC s  \<comment> \<open>BCC n -- Relative\<close>
      else if opcode = 0xB0 then with_operand Relative BCS s  \<comment> \<open>BCS n -- Relative\<close>
      else if opcode = 0xF0 then with_operand Relative BEQ s  \<comment> \<open>BEQ n -- Relative\<close>
      else if opcode = 0xD0 then with_operand Relative BNE s  \<comment> \<open>BNE n -- Relative\<close>
      else if opcode = 0x30 then with_operand Relative BMI s  \<comment> \<open>BMI n -- Relative\<close>
      else if opcode = 0x10 then with_operand Relative BPL s  \<comment> \<open>BPL n -- Relative\<close>
      else if opcode = 0x50 then with_operand Relative BVS s  \<comment> \<open>BVS n -- Relative\<close>
      else if opcode = 0x70 then with_operand Relative BVS s  \<comment> \<open>BVS n -- Relative\<close>
      else if opcode = 0x2C then with_operand Absolute BIT_instr s  \<comment> \<open>BIT nn -- Absolute\<close>
      else if opcode = 0x24 then with_operand ZeroPage BIT_instr s  \<comment> \<open>BIT n -- Zero Page\<close>
      else if opcode = 0x00 then BRK s  \<comment> \<open>BRK -- None\<close>
      else if opcode = 0x18 then CLC s  \<comment> \<open>CLC -- None\<close>
      else if opcode = 0xD8 then CLD s  \<comment> \<open>CLD -- None\<close>
      else if opcode = 0x58 then CLI s  \<comment> \<open>CLI -- None\<close>
      else if opcode = 0xB8 then CLV s  \<comment> \<open>CLV -- None\<close>
      else if opcode = 0xC9 then with_operand Immediate CMP s  \<comment> \<open>CMP #n -- Immediate\<close>
      else if opcode = 0xCD then with_operand Absolute CMP s  \<comment> \<open>CMP nn -- Absolute\<close>
      else if opcode = 0xC5 then with_operand ZeroPage CMP s  \<comment> \<open>CMP n -- Zero Page\<close>
      else if opcode = 0xC1 then with_operand IndX CMP s  \<comment> \<open>CMP (n,X) -- Ind X\<close>
      else if opcode = 0xD1 then with_operand IndY CMP s  \<comment> \<open>CMP (n),Y -- Ind Y\<close>
      else if opcode = 0xD5 then with_operand ZeroPageX CMP s  \<comment> \<open>CMP n,X -- Zero Page X\<close>
      else if opcode = 0xDD then with_operand AbsoluteX CMP s  \<comment> \<open>CMP nn,X -- Absolute X\<close>
      else if opcode = 0xD9 then with_operand AbsoluteY CMP s  \<comment> \<open>CMP nn,Y -- Absolute Y\<close>
      else if opcode = 0xE0 then with_operand Immediate CPX s  \<comment> \<open>CPX #n -- Immediate\<close>
      else if opcode = 0xEC then with_operand Absolute CPX s  \<comment> \<open>CPX nn -- Absolute\<close>
      else if opcode = 0xE4 then with_operand ZeroPage CPX s  \<comment> \<open>CPX n -- Zero Page\<close>
      else if opcode = 0xC0 then with_operand Immediate CPY s  \<comment> \<open>CPY #n -- Immediate\<close>
      else if opcode = 0xCC then with_operand Absolute CPY s  \<comment> \<open>CPY nn -- Absolute\<close>
      else if opcode = 0xC4 then with_operand ZeroPage CPY s  \<comment> \<open>CPY n -- Zero Page\<close>
      else if opcode = 0xCE then with_operand Absolute DEC s  \<comment> \<open>DEC nn -- Absolute\<close>
      else if opcode = 0xC6 then with_operand ZeroPage DEC s  \<comment> \<open>DEC n -- Zero Page\<close>
      else if opcode = 0xD6 then with_operand ZeroPageX DEC s  \<comment> \<open>DEC n,X -- Zero Page X\<close>
      else if opcode = 0xDE then with_operand AbsoluteX DEC s  \<comment> \<open>DEC nn,X -- Absolute X\<close>
      else if opcode = 0xCA then DEX s  \<comment> \<open>DEX -- None\<close>
      else if opcode = 0x88 then DEY s  \<comment> \<open>DEY -- None\<close>
      else if opcode = 0x49 then with_operand Immediate EOR s  \<comment> \<open>EOR #n -- Immediate\<close>
      else if opcode = 0x4D then with_operand Absolute EOR s  \<comment> \<open>EOR nn -- Absolute\<close>
      else if opcode = 0x45 then with_operand ZeroPage EOR s  \<comment> \<open>EOR n -- Zero Page\<close>
      else if opcode = 0x41 then with_operand IndX EOR s  \<comment> \<open>EOR (n,X) -- Ind X\<close>
      else if opcode = 0x51 then with_operand IndY EOR s  \<comment> \<open>EOR (n),Y -- Ind Y\<close>
      else if opcode = 0x55 then with_operand ZeroPageX EOR s  \<comment> \<open>EOR n,X -- Zero Page X\<close>
      else if opcode = 0x5D then with_operand AbsoluteX EOR s  \<comment> \<open>EOR nn,X -- Absolute X\<close>
      else if opcode = 0x59 then with_operand AbsoluteY EOR s  \<comment> \<open>EOR nn,Y -- Absolute Y\<close>
      else if opcode = 0xEE then with_operand Absolute INC s  \<comment> \<open>INC nn -- Absolute\<close>
      else if opcode = 0xE6 then with_operand ZeroPage INC s  \<comment> \<open>INC n -- Zero Page\<close>
      else if opcode = 0xF6 then with_operand ZeroPageX INC s  \<comment> \<open>INC n,X -- Zero Page X\<close>
      else if opcode = 0xFE then with_operand AbsoluteX INC s  \<comment> \<open>INC nn,X -- Absolute X\<close>
      else if opcode = 0xE8 then INX s  \<comment> \<open>INX -- None\<close>
      else if opcode = 0xC8 then INY s  \<comment> \<open>INY -- None\<close>
      else if opcode = 0x4C then with_operand Absolute JMP_ABS s  \<comment> \<open>JMP nn -- Absolute\<close>
      else if opcode = 0x6C then with_operand Indirect JMP_IND s  \<comment> \<open>JMP (nn) -- Indirect\<close>
      else if opcode = 0x20 then with_operand Absolute JSR s  \<comment> \<open>JSR nn -- Absolute\<close>
      else if opcode = 0xA9 then with_operand Immediate LDA s  \<comment> \<open>LDA #n -- Immediate\<close>
      else if opcode = 0xAD then with_operand Absolute LDA s  \<comment> \<open>LDA nn -- Absolute\<close>
      else if opcode = 0xA5 then with_operand ZeroPage LDA s  \<comment> \<open>LDA n -- Zero Page\<close>
      else if opcode = 0xA1 then with_operand IndX LDA s  \<comment> \<open>LDA (n,X) -- Ind X\<close>
      else if opcode = 0xB1 then with_operand IndY LDA s  \<comment> \<open>LDA (n),Y -- Ind Y\<close>
      else if opcode = 0xB5 then with_operand ZeroPageX LDA s  \<comment> \<open>LDA n,X -- Zero Page X\<close>
      else if opcode = 0xBD then with_operand AbsoluteX LDA s  \<comment> \<open>LDA nn,X -- Absolute X\<close>
      else if opcode = 0xB9 then with_operand AbsoluteY LDA s  \<comment> \<open>LDA nn,Y -- Absolute Y\<close>
      else if opcode = 0xA2 then with_operand Immediate LDX s  \<comment> \<open>LDX #n -- Immediate\<close>
      else if opcode = 0xAE then with_operand Absolute LDX s  \<comment> \<open>LDX nn -- Absolute\<close>
      else if opcode = 0xA6 then with_operand ZeroPage LDX s  \<comment> \<open>LDX n -- Zero Page\<close>
      else if opcode = 0xBE then with_operand AbsoluteY LDX s  \<comment> \<open>LDX nn,Y -- Absolute Y\<close>
      else if opcode = 0xB6 then with_operand ZeroPageY LDX s  \<comment> \<open>LDX n,Y -- Zero Page Y\<close>
      else if opcode = 0xA0 then with_operand Immediate LDY s  \<comment> \<open>LDY #n -- Immediate\<close>
      else if opcode = 0xAC then with_operand Absolute LDY s  \<comment> \<open>LDY nn -- Absolute\<close>
      else if opcode = 0xA4 then with_operand ZeroPage LDY s  \<comment> \<open>LDY n -- Zero Page\<close>
      else if opcode = 0xB4 then with_operand ZeroPageX LDY s  \<comment> \<open>LDY n,X -- Zero Page X\<close>
      else if opcode = 0xBC then with_operand AbsoluteX LDY s  \<comment> \<open>LDY nn,X -- Absolute X\<close>
      else if opcode = 0x4E then with_operand AbsoluteX LSR s  \<comment> \<open>LSR nn -- Absolute\<close>
      else if opcode = 0x46 then with_operand ZeroPage LSR s  \<comment> \<open>LSR n -- Zero Page\<close>
      else if opcode = 0x4A then LSR_A s  \<comment> \<open>LSR A -- Accumulator\<close>
      else if opcode = 0x56 then with_operand ZeroPageX LSR s  \<comment> \<open>LSR n,X -- Zero Page X\<close>
      else if opcode = 0x5E then with_operand AbsoluteX LSR s  \<comment> \<open>LSR nn,X -- Absolute X\<close>
      else if opcode = 0xEA then NOP s  \<comment> \<open>NOP -- None\<close>
      else if opcode = 0x09 then with_operand Immediate LSR s  \<comment> \<open>ORA #n -- Immediate\<close>
      else if opcode = 0x0D then with_operand Absolute LSR s  \<comment> \<open>ORA nn -- Absolute\<close>
      else if opcode = 0x05 then with_operand ZeroPage LSR s  \<comment> \<open>ORA n -- Zero Page\<close>
      else if opcode = 0x01 then with_operand IndX LSR s  \<comment> \<open>ORA (n,X) -- Ind X\<close>
      else if opcode = 0x11 then with_operand IndY LSR s  \<comment> \<open>ORA (n),Y -- Ind Y\<close>
      else if opcode = 0x15 then with_operand ZeroPageX LSR s  \<comment> \<open>ORA n,X -- Zero Page X\<close>
      else if opcode = 0x1D then with_operand AbsoluteX LSR s  \<comment> \<open>ORA nn,X -- Absolute X\<close>
      else if opcode = 0x19 then with_operand AbsoluteY LSR s  \<comment> \<open>ORA nn,Y -- Absolute Y\<close>
      else if opcode = 0x48 then PHA s  \<comment> \<open>PHA -- None\<close>
      else if opcode = 0x08 then PHP s  \<comment> \<open>PHP -- None\<close>
      else if opcode = 0x68 then PLA s  \<comment> \<open>PLA -- None\<close>
      else if opcode = 0x28 then PLP s  \<comment> \<open>PLP -- None\<close>
      else if opcode = 0x2E then with_operand Absolute ROL s  \<comment> \<open>ROL nn -- Absolute\<close>
      else if opcode = 0x26 then with_operand ZeroPage ROL s  \<comment> \<open>ROL n -- Zero Page\<close>
      else if opcode = 0x2A then ROL_A s  \<comment> \<open>ROL A -- Accumulator\<close>
      else if opcode = 0x36 then with_operand ZeroPageX ROL s  \<comment> \<open>ROL n,X -- Zero Page X\<close>
      else if opcode = 0x3E then with_operand AbsoluteX ROL s  \<comment> \<open>ROL nn,X -- Absolute X\<close>
      else if opcode = 0x6E then with_operand Absolute ROL s  \<comment> \<open>ROR nn -- Absolute\<close>
      else if opcode = 0x66 then with_operand ZeroPage ROL s  \<comment> \<open>ROR n -- Zero Page\<close>
      else if opcode = 0x6A then ROL_A s  \<comment> \<open>ROR A -- Accumulator\<close>
      else if opcode = 0x76 then with_operand ZeroPageX ROL s  \<comment> \<open>ROR n,X -- Zero Page X\<close>
      else if opcode = 0x7E then with_operand AbsoluteX ROL s  \<comment> \<open>ROR nn,X -- Absolute X\<close>
      else if opcode = 0x40 then RTI s  \<comment> \<open>RTI -- None\<close>
      else if opcode = 0x60 then RTS s  \<comment> \<open>RTS -- None\<close>
      else if opcode = 0xE9 then with_operand Immediate SBC s  \<comment> \<open>SBC #n -- Immediate\<close>
      else if opcode = 0xED then with_operand Absolute SBC s  \<comment> \<open>SBC nn -- Absolute\<close>
      else if opcode = 0xE5 then with_operand ZeroPage SBC s  \<comment> \<open>SBC n -- Zero Page\<close>
      else if opcode = 0xE1 then with_operand IndX SBC s  \<comment> \<open>SBC (n,X) -- Ind X\<close>
      else if opcode = 0xF1 then with_operand IndY SBC s  \<comment> \<open>SBC (n),Y -- Ind Y\<close>
      else if opcode = 0xF5 then with_operand ZeroPageX SBC s  \<comment> \<open>SBC n,X -- Zero Page X\<close>
      else if opcode = 0xFD then with_operand AbsoluteX SBC s  \<comment> \<open>SBC nn,X -- Absolute X\<close>
      else if opcode = 0xF9 then with_operand AbsoluteY SBC s  \<comment> \<open>SBC nn,Y -- Absolute Y\<close>
      else if opcode = 0x38 then SEC s  \<comment> \<open>SEC -- None\<close>
      else if opcode = 0xF8 then SED s  \<comment> \<open>SED -- None\<close>
      else if opcode = 0x78 then SEI s  \<comment> \<open>SEI -- None\<close>
      else if opcode = 0x8D then with_operand Absolute STA s  \<comment> \<open>STA nn -- Absolute\<close>
      else if opcode = 0x85 then with_operand ZeroPage STA s  \<comment> \<open>STA n -- Zero Page\<close>
      else if opcode = 0x81 then with_operand IndX STA s  \<comment> \<open>STA (n,X) -- Ind X\<close>
      else if opcode = 0x91 then with_operand IndY STA s  \<comment> \<open>STA (n),Y -- Ind Y\<close>
      else if opcode = 0x95 then with_operand ZeroPageX STA s  \<comment> \<open>STA n,X -- Zero Page X\<close>
      else if opcode = 0x9D then with_operand AbsoluteX STA s  \<comment> \<open>STA nn,X -- Absolute X\<close>
      else if opcode = 0x99 then with_operand AbsoluteY STA s  \<comment> \<open>STA nn,Y -- Absolute Y\<close>
      else if opcode = 0x8E then with_operand Absolute STX s  \<comment> \<open>STX nn -- Absolute\<close>
      else if opcode = 0x86 then with_operand ZeroPage STX s  \<comment> \<open>STX n -- Zero Page\<close>
      else if opcode = 0x96 then with_operand ZeroPageY STX s  \<comment> \<open>STX n,Y -- Zero Page Y\<close>
      else if opcode = 0x8C then with_operand Absolute STY s  \<comment> \<open>STY nn -- Absolute\<close>
      else if opcode = 0x84 then with_operand ZeroPage STY s  \<comment> \<open>STY n -- Zero Page\<close>
      else if opcode = 0x94 then with_operand ZeroPageX STY s  \<comment> \<open>STY n,X -- Zero Page X\<close>
      else if opcode = 0xAA then TAX s  \<comment> \<open>TAX -- None\<close>
      else if opcode = 0xA8 then TAY s  \<comment> \<open>TAY -- None\<close>
      else if opcode = 0xBA then TSX s  \<comment> \<open>TSX -- None\<close>
      else if opcode = 0x8A then TXA s  \<comment> \<open>TXA -- None\<close>
      else if opcode = 0x9A then TXS s  \<comment> \<open>TXS -- None\<close>
      else if opcode = 0x98 then TYA s  \<comment> \<open>TYA -- None\<close>
      else s)"

definition decodeAndExecute :: "nes \<Rightarrow> nes" where
  "decodeAndExecute s =
     (case readMemory (CPU_PC s) s of (opcode, s1) \<Rightarrow>
      dispatch opcode (s1\<lparr>CPU_PC := CPU_PC s1 + 1\<rparr>))"

section \<open>PPU\<close>

definition CYCLES_PER_SCANLINE :: int where
  "CYCLES_PER_SCANLINE = 113"

definition PPU_reset :: "nes \<Rightarrow> nes" where
  "PPU_reset s =
     s\<lparr>PPU_ctrl := 0x00, PPU_mask := 0x00, PPU_status := 0x00, PPU_oamAddr := 0x00,
       PPU_oamData := 0x00, PPU_scroll := 0x00, PPU_addr := 0x00, PPU_data := 0x00,
       PPU_currentScanline := 0\<rparr>"

text \<open>
  \<^verbatim>\<open>PPU.writeRegister\<close> and \<^verbatim>\<open>PPU.readRegister\<close>.  Nothing in the source calls them:
  \<^verbatim>\<open>Memory.read\<close> and \<^verbatim>\<open>Memory.write\<close> serve the addresses \<open>0x2000\<close> to \<open>0x3FFF\<close>
  from \<^verbatim>\<open>Memory.data\<close>.  The unrecognised-address branches only log.
\<close>

definition writeRegister :: "int \<Rightarrow> int \<Rightarrow> nes \<Rightarrow> nes" where
  "writeRegister address val s =
     (if address = 0x2000 then s\<lparr>PPU_ctrl := val\<rparr>
      else if address = 0x2001 then s\<lparr>PPU_mask := val\<rparr>
      else if address = 0x2002 then s
      else if address = 0x2003 then s\<lparr>PPU_oamAddr := val\<rparr>
      else if address = 0x2004 then s\<lparr>PPU_oamData := val\<rparr>
      else if address = 0x2005 then s\<lparr>PPU_scroll := val\<rparr>
      else if address = 0x2006 then s\<lparr>PPU_addr := val\<rparr>
      else if address = 0x2007 then s\<lparr>PPU_data := val\<rparr>
      else if address = 0x4014 then s
      else s)"

definition readRegister :: "int \<Rightarrow> nes \<Rightarrow> int \<times> nes" where
  "readRegister address s =
     (if address = 0x2002 then (let status = PPU_status s in (status, s))
      else if address = 0x2004 then (PPU_oamData s, s)
      else if address = 0x2007 then (PPU_data s, s)
      else (0, s))"

definition renderScanline :: "nes \<Rightarrow> nes" where
  "renderScanline s = s"

text \<open>
  The loop of \<^verbatim>\<open>PPU.executeCycles\<close>, from the loop index \<open>i\<close> on.  The index is local
  to one call and starts at 0 in each.
\<close>

function executeCycles_loop :: "int \<Rightarrow> int \<Rightarrow> nes \<Rightarrow> nes" where
  "executeCycles_loop i cycles s =
     (if i < cycles
      then executeCycles_loop (i + 1) cycles
             (if i mod CYCLES_PER_SCANLINE = 0
              then renderScanline (s\<lparr>PPU_currentScanline := PPU_currentScanline s + 1\<rparr>)
              else s)
      else s)"
  by pat_completeness auto
termination
  by (relation "measure (\<lambda>(i, cycles, s). nat (cycles - i))") auto

declare executeCycles_loop.simps [simp del]

definition executeCycles :: "int \<Rightarrow> nes \<Rightarrow> nes" where
  "executeCycles cycles s = executeCycles_loop 0 cycles s"

section \<open>The ROM loader\<close>

text \<open>
  \<^verbatim>\<open>loadRom\<close> takes the path of a file; the model takes the bytes
  \<^verbatim>\<open>fs.readFileSync\<close> returned.  Indexing the buffer past its end gives
  \<^verbatim>\<open>undefined\<close>, here \<open>None\<close>.
\<close>

definition buffer_at :: "8 word list \<Rightarrow> int \<Rightarrow> int option" where
  "buffer_at romBuffer i =
     (if 0 \<le> i \<and> i < int (length romBuffer) then Some (uint (romBuffer ! nat i)) else None)"

text \<open>
  The copying loop.  \<^verbatim>\<open>Memory.write\<close> masks its value with \<^verbatim>\<open>& 0xFF\<close>, which turns
  \<^verbatim>\<open>undefined\<close> into 0.
\<close>

function loadRom_loop :: "8 word list \<Rightarrow> int \<Rightarrow> int \<Rightarrow> int \<Rightarrow> nes \<Rightarrow> nes" where
  "loadRom_loop romBuffer prgRomSize i cpuMemoryAddress s =
     (if i < 16 + prgRomSize
      then (if cpuMemoryAddress < 0x8000 \<or> cpuMemoryAddress \<ge> 0x10000 then s
            else loadRom_loop romBuffer prgRomSize (i + 1) (cpuMemoryAddress + 1)
                   (Memory_write cpuMemoryAddress
                      (case buffer_at romBuffer i of None \<Rightarrow> 0 | Some b \<Rightarrow> b) s))
      else s)"
  by pat_completeness auto
termination
  by (relation "measure (\<lambda>(romBuffer, prgRomSize, i, a, s). nat (16 + prgRomSize - i))") auto

declare loadRom_loop.simps [simp del]

text \<open>
  The loader returns nothing and raises nothing.  What tells a rejected file from a
  loaded one is the message it logs with \<^verbatim>\<open>console.error\<close> before it returns early;
  the model returns that message beside the state.  When byte 4 is missing the size is
  \<^verbatim>\<open>NaN\<close>, the loop condition is false at once and nothing is copied.
\<close>

definition loadRom :: "8 word list \<Rightarrow> nes \<Rightarrow> string option \<times> nes" where
  "loadRom romBuffer s =
     (if buffer_at romBuffer 0 \<noteq> Some 0x4E \<or> buffer_at romBuffer 1 \<noteq> Some 0x45 \<or>
         buffer_at romBuffer 2 \<noteq> Some 0x53 \<or> buffer_at romBuffer 3 \<noteq> Some 0x1A
      then (Some ''Invalid NES ROM file.'', s)
      else
        let s1 = (case buffer_at romBuffer 4 of
                    None \<Rightarrow> s
                  | Some prgBanks \<Rightarrow>
                      let prgRomSize = 16384 * prgBanks in
                      loadRom_loop romBuffer prgRomSize 16 0x8000 s)
        in (None, CPU_reset s1))"

section \<open>Concrete states\<close>

text \<open>
  The states the scenarios below start from.  Each is built from the load-time state
  with \<^verbatim>\<open>Memory.write\<close>, the way \<^verbatim>\<open>test_program\<close> of the source sets a program up.
\<close>

definition adc_program :: nes where
  "adc_program =
     Memory_write 0x0003 0x03 (Memory_write 0x0002 0x69
       (Memory_write 0x0001 0x05 (Memory_write 0x0000 0xA9
         (initial_state\<lparr>CPU_PC := 0x0000\<rparr>))))"

definition ora_program :: nes where
  "ora_program =
     Memory_write 0x0001 0x01 (Memory_write 0x0000 0x09
       (initial_state\<lparr>CPU_PC := 0x0000, CPU_A := 0x02\<rparr>))"

text \<open>
  A \<^verbatim>\<open>JMP ($00FF)\<close> in cartridge space, with \<open>0x34\<close> at \<open>0x00FF\<close>, \<open>0x12\<close> at
  \<open>0x0000\<close> and the bytes \<open>0x78, 0x56\<close> at \<open>0x0234\<close>, the RAM cells that
  \<open>0x1234\<close> selects.
\<close>

definition jmp_program :: nes where
  "jmp_program =
     Memory_write 0x8002 0x00 (Memory_write 0x8001 0xFF (Memory_write 0x8000 0x6C
       (Memory_write 0x0235 0x56 (Memory_write 0x0234 0x78
         (Memory_write 0x0000 0x12 (Memory_write 0x00FF 0x34
           (initial_state\<lparr>CPU_PC := 0x8000\<rparr>)))))))"

text \<open>
  The same jump placed at \<open>0x1000\<close>, written in the order \<open>0x00FF\<close>, \<open>0x0000\<close>,
  \<open>0x1000\<close>.  The address \<open>0x1000\<close> is a mirror of \<open>0x0000\<close>, so the opcode replaces
  the \<open>0x12\<close> written there.
\<close>

definition jmp_program_low :: nes where
  "jmp_program_low =
     Memory_write 0x1002 0x00 (Memory_write 0x1001 0xFF (Memory_write 0x1000 0x6C
       (Memory_write 0x0000 0x12 (Memory_write 0x00FF 0x34
         (initial_state\<lparr>CPU_PC := 0x1000\<rparr>)))))"

definition reset_vector_state :: nes where
  "reset_vector_state =
     Memory_write 0xFFFD 0xC0 (Memory_write 0xFFFC 0x00 initial_state)"

definition vblank_state :: nes where
  "vblank_state = initial_state\<lparr>PPU_status := 0x80\<rparr>"

definition last_scanline_state :: nes where
  "last_scanline_state = initial_state\<lparr>PPU_currentScanline := 261\<rparr>"

text \<open>
  Three files with the right first four bytes: a 16-byte header that names mapper 1
  and no PRG bank; the four magic bytes alone; and a header that promises one
  16 KiB bank followed by a single byte.
\<close>

definition mapper1_rom :: "8 word list" where
  "mapper1_rom =
     [0x4E, 0x45, 0x53, 0x1A, 0x00, 0x00, 0x10, 0x00,
      0x00, 0x00, 0x00, 0x00, 0x00, 0x00, 0x00, 0x00]"

definition magic_only_rom :: "8 word list" where
  "magic_only_rom = [0x4E, 0x45, 0x53, 0x1A]"

definition one_byte_rom :: "8 word list" where
  "one_byte_rom =
     [0x4E, 0x45, 0x53, 0x1A, 0x01, 0x00, 0x00, 0x00,
      0x00, 0x00, 0x00, 0x00, 0x00, 0x00, 0x00, 0x00, 0xEA]"

section \<open>Bit-level facts\<close>

lemma and_80_iff: "((x::int) AND 0x80 \<noteq> 0) = bit x 7"
proof -
  have "(0x80::int) = 2 ^ 7" by simp
  then show ?thesis by (metis and_exp_eq_0_iff_not_bit)
qed

lemma and_FF_mod: "(x::int) AND 0xFF = x mod 256"
  using take_bit_eq_mask[of 8 x] take_bit_eq_mod[of 8 x] by (simp add: mask_eq_exp_minus_1)

lemma and_FFFF_mod: "(x::int) AND 0xFFFF = x mod 65536"
  using take_bit_eq_mask[of 16 x] take_bit_eq_mod[of 16 x] by (simp add: mask_eq_exp_minus_1)

lemma bit7_and_FF: "bit ((x::int) AND 0xFF) 7 = bit x 7"
  by (simp add: bit_and_iff)

lemma and_FF_add_256: "((x::int) + 256) AND 0xFF = x AND 0xFF"
  by (simp add: and_FF_mod)

lemma bit7_add_256: "bit ((x::int) + 256) 7 = bit x 7"
  using bit7_and_FF[of "x + 256"] bit7_and_FF[of x] by (simp only: and_FF_add_256)

lemma not_and_FF:
  assumes "0 \<le> m" "m \<le> 255"
  shows "NOT (m::int) AND 0xFF = 255 - m"
proof -
  have "NOT m AND 0xFF = (- m - 1) mod 256" by (simp add: and_FF_mod not_int_def)
  also have "- m - 1 = (255 - m) + (- 1) * 256" by simp
  also have "((255 - m) + (- 1) * 256) mod 256 = (255 - m) mod 256" by (rule mod_mult_self1)
  also have "\<dots> = 255 - m" using assms by simp
  finally show ?thesis .
qed

section \<open>Reading memory\<close>

lemma Memory_read_state: "snd (Memory_read a s) = s"
  by (simp add: Memory_read_def Let_def)

lemma readMemory_eq: "readMemory a s = (fst (Memory_read a s), s)"
  unfolding readMemory_def using Memory_read_state[of a s] by (metis prod.collapse)

section \<open>ADC\<close>

lemma ADC_fields:
  "CPU_A (ADC m s) = (CPU_A s + m + (if CarryFlag s then 1 else 0)) AND 0xFF \<and>
   CPU_A (ADC m s) = (CPU_A s + m + (if CarryFlag s then 1 else 0)) mod 256 \<and>
   0 \<le> CPU_A (ADC m s) \<and> CPU_A (ADC m s) \<le> 255 \<and>
   CarryFlag (ADC m s) = (CPU_A s + m + (if CarryFlag s then 1 else 0) > 0xFF) \<and>
   OverflowFlag (ADC m s) =
     ((CPU_A s XOR (CPU_A s + m + (if CarryFlag s then 1 else 0))) AND
      (m XOR (CPU_A s + m + (if CarryFlag s then 1 else 0))) AND 0x80 \<noteq> 0) \<and>
   NegativeFlag (ADC m s) = (CPU_A (ADC m s) AND 0x80 \<noteq> 0) \<and>
   ZeroFlag (ADC m s) = (CPU_A (ADC m s) = 0)"
proof -
  define sum where "sum = CPU_A s + m + (if CarryFlag s then 1 else 0)"
  have A: "ADC m s = s\<lparr>CarryFlag := (sum > 0xFF),
        ZeroFlag := (sum AND 0xFF = 0),
        NegativeFlag := (sum AND 0x80 \<noteq> 0),
        OverflowFlag := (((CPU_A s XOR sum) AND (m XOR sum)) AND 0x80 \<noteq> 0),
        CPU_A := sum AND 0xFF\<rparr>"
    unfolding ADC_def Let_def sum_def ..
  have b: "0 \<le> sum mod 256 \<and> sum mod 256 \<le> 255"
    using pos_mod_bound[of 256 sum] pos_mod_sign[of 256 sum] by simp
  show ?thesis
    unfolding sum_def[symmetric] A using b
    by (simp add: and_80_iff bit7_and_FF and_FF_mod[symmetric] and.assoc)
qed

lemma ADC_immediate:
  assumes "fst (Memory_read (CPU_PC s) s) = 0x69"
  shows "decodeAndExecute s =
           ADC (fst (Memory_read (CPU_PC s + 1) s)) (s\<lparr>CPU_PC := CPU_PC s + 2\<rparr>)"
  using assms
  apply (simp add: decodeAndExecute_def readMemory_eq dispatch_def with_operand_def Immediate_def)
  apply (simp add: Memory_read_def Let_def ADC_def)
  done

lemma LDA_ADC_program:
  assumes "CPU_PC t = 0x0000" "\<not> CarryFlag t"
    and "Memory_data t 0 = 0xA9" "Memory_data t 1 = 0x05"
    and "Memory_data t 2 = 0x69" "Memory_data t 3 = 0x03"
  shows "CPU_A (decodeAndExecute (decodeAndExecute t)) = 0x08 \<and>
     \<not> ZeroFlag (decodeAndExecute (decodeAndExecute t)) \<and>
     \<not> NegativeFlag (decodeAndExecute (decodeAndExecute t)) \<and>
     \<not> CarryFlag (decodeAndExecute (decodeAndExecute t)) \<and>
     \<not> OverflowFlag (decodeAndExecute (decodeAndExecute t))"
  using assms
  by (simp add: decodeAndExecute_def dispatch_def with_operand_def Immediate_def
        readMemory_def Memory_read_def Let_def LDA_def ADC_def)

text \<open>
  C1.  \<^verbatim>\<open>ADC\<close> stores the low 8 bits of \<open>A + M + C\<close> in the accumulator, sets the
  carry flag to \<open>sum > 0xFF\<close>, the overflow flag to
  \<open>((A XOR sum) AND (M XOR sum) AND 0x80) \<noteq> 0\<close>, N to bit 7 of the new accumulator and
  Z to whether the new accumulator is 0; this holds for every accumulator, operand and
  carry.  The opcode \<open>0x69\<close> applies it to the byte after the opcode.  Running the two
  instructions \<open>A9 05 69 03\<close> from \<open>PC = 0\<close> with the carry clear leaves \<open>A = 8\<close> and
  Z, N, C and V clear.
\<close>

theorem ADC_adds_with_carry:
  "(CPU_A (ADC m s) = (CPU_A s + m + (if CarryFlag s then 1 else 0)) AND 0xFF \<and>
    CPU_A (ADC m s) = (CPU_A s + m + (if CarryFlag s then 1 else 0)) mod 256 \<and>
    0 \<le> CPU_A (ADC m s) \<and> CPU_A (ADC m s) \<le> 255 \<and>
    CarryFlag (ADC m s) = (CPU_A s + m + (if CarryFlag s then 1 else 0) > 0xFF) \<and>
    OverflowFlag (ADC m s) =
      ((CPU_A s XOR (CPU_A s + m + (if CarryFlag s then 1 else 0))) AND
       (m XOR (CPU_A s + m + (if CarryFlag s then 1 else 0))) AND 0x80 \<noteq> 0) \<and>
    NegativeFlag (ADC m s) = (CPU_A (ADC m s) AND 0x80 \<noteq> 0) \<and>
    ZeroFlag (ADC m s) = (CPU_A (ADC m s) = 0)) \<and>
   (fst (Memory_read (CPU_PC u) u) = 0x69 \<longrightarrow>
      decodeAndExecute u =
        ADC (fst (Memory_read (CPU_PC u + 1) u)) (u\<lparr>CPU_PC := CPU_PC u + 2\<rparr>)) \<and>
   (CPU_PC t = 0x0000 \<and> \<not> CarryFlag t \<and>
    Memory_data t 0 = 0xA9 \<and> Memory_data t 1 = 0x05 \<and>
    Memory_data t 2 = 0x69 \<and> Memory_data t 3 = 0x03 \<longrightarrow>
      CPU_A (decodeAndExecute (decodeAndExecute t)) = 0x08 \<and>
      \<not> ZeroFlag (decodeAndExecute (decodeAndExecute t)) \<and>
      \<not> NegativeFlag (decodeAndExecute (decodeAndExecute t)) \<and>
      \<not> CarryFlag (decodeAndExecute (decodeAndExecute t)) \<and>
      \<not> OverflowFlag (decodeAndExecute (decodeAndExecute t)))"
  using ADC_fields[of m s] ADC_immediate[of u] LDA_ADC_program[of t] by blast

theorem ADC_adds_with_carry_witness:
  "CPU_PC adc_program = 0x0000 \<and> \<not> CarryFlag adc_program \<and>
   Memory_data adc_program 0 = 0xA9 \<and> Memory_data adc_program 1 = 0x05 \<and>
   Memory_data adc_program 2 = 0x69 \<and> Memory_data adc_program 3 = 0x03 \<and>
   (CPU_A (decodeAndExecute (decodeAndExecute adc_program)) = 0x08 \<and>
    \<not> ZeroFlag (decodeAndExecute (decodeAndExecute adc_program)) \<and>
    \<not> NegativeFlag (decodeAndExecute (decodeAndExecute adc_program)) \<and>
    \<not> CarryFlag (decodeAndExecute (decodeAndExecute adc_program)) \<and>
    \<not> OverflowFlag (decodeAndExecute (decodeAndExecute adc_program))) \<and>
   fst (Memory_read (CPU_PC (decodeAndExecute adc_program)) (decodeAndExecute adc_program))
     = 0x69 \<and>
   decodeAndExecute (decodeAndExecute adc_program) =
     ADC (fst (Memory_read (CPU_PC (decodeAndExecute adc_program) + 1)
                 (decodeAndExecute adc_program)))
       ((decodeAndExecute adc_program)
          \<lparr>CPU_PC := CPU_PC (decodeAndExecute adc_program) + 2\<rparr>) \<and>
   CPU_A (ADC 0xFF (initial_state\<lparr>CPU_A := 0x02, CarryFlag := True\<rparr>)) = 0x02"
proof -
  have h: "CPU_PC adc_program = 0x0000 \<and> \<not> CarryFlag adc_program \<and>
     Memory_data adc_program 0 = 0xA9 \<and> Memory_data adc_program 1 = 0x05 \<and>
     Memory_data adc_program 2 = 0x69 \<and> Memory_data adc_program 3 = 0x03"
    by (simp add: adc_program_def Memory_write_def initial_state_def Let_def)
  have d: "fst (Memory_read (CPU_PC (decodeAndExecute adc_program))
             (decodeAndExecute adc_program)) = 0x69"
    by (simp add: adc_program_def Memory_write_def initial_state_def Let_def
        decodeAndExecute_def dispatch_def with_operand_def Immediate_def
        readMemory_def Memory_read_def LDA_def)
  note T = ADC_adds_with_carry[of "0xFF" "initial_state\<lparr>CPU_A := 0x02, CarryFlag := True\<rparr>"
      "decodeAndExecute adc_program" adc_program]
  have g: "CPU_A (ADC 0xFF (initial_state\<lparr>CPU_A := 0x02, CarryFlag := True\<rparr>)) = 0x02"
    using T[THEN conjunct1, THEN conjunct1] by (simp add: initial_state_def)
  note i = T[THEN conjunct2, THEN conjunct1, THEN mp, OF d]
  note p = T[THEN conjunct2, THEN conjunct2, THEN mp, OF h]
  show ?thesis using h d g i p by blast
qed

section \<open>SBC\<close>

lemma sbc_overflow_eq:
  "(((a XOR (t + 256)) AND ((NOT m AND 0xFF) XOR (t + 256))) AND 0x80 \<noteq> 0)
     = (((a XOR t) AND 0x80 \<noteq> 0) \<and> ((a XOR m) AND (0x80::int) \<noteq> 0))"
  by (auto simp: and_80_iff bit_and_iff bit_xor_iff bit_not_iff bit7_add_256)

lemma SBC_is_ADC:
  assumes "0 \<le> m" "m \<le> 255"
  shows "SBC m s = ADC (NOT m AND 0xFF) s"
proof -
  define a where "a = CPU_A s"
  define t where "t = a - m - (if CarryFlag s then 0 else 1)"
  have n: "NOT m AND 0xFF = 255 - m" using assms by (rule not_and_FF)
  have r: "a + (NOT m AND 0xFF) + (if CarryFlag s then 1 else 0) = t + 256"
    by (simp add: n t_def)
  have f1: "(t + 256 > 0xFF) = (t \<ge> 0)" by arith
  have f3: "((t + 256) AND 0x80 \<noteq> 0) = ((t AND 0xFF) AND 0x80 \<noteq> 0)"
    by (simp only: and_80_iff bit7_add_256 bit7_and_FF)
  have S: "SBC m s =
      s\<lparr>OverflowFlag := (((a XOR t) AND 0x80 \<noteq> 0) \<and> ((a XOR m) AND 0x80 \<noteq> 0)),
        CarryFlag := (t \<ge> 0), ZeroFlag := (t AND 0xFF = 0),
        NegativeFlag := ((t AND 0xFF) AND 0x80 \<noteq> 0), CPU_A := t AND 0xFF\<rparr>"
    unfolding SBC_def Let_def a_def t_def by (rule refl)
  have A: "ADC (NOT m AND 0xFF) s =
      s\<lparr>CarryFlag := (t + 256 > 0xFF),
        ZeroFlag := ((t + 256) AND 0xFF = 0),
        NegativeFlag := ((t + 256) AND 0x80 \<noteq> 0),
        OverflowFlag :=
          (((a XOR (t + 256)) AND ((NOT m AND 0xFF) XOR (t + 256))) AND 0x80 \<noteq> 0),
        CPU_A := (t + 256) AND 0xFF\<rparr>"
    unfolding ADC_def Let_def a_def[symmetric] r ..
  show ?thesis unfolding S A f1 f3 sbc_overflow_eq and_FF_add_256 by simp
qed

lemma SBC_fields:
  "CPU_A (SBC m s) = (CPU_A s - m - (1 - (if CarryFlag s then 1 else 0))) AND 0xFF \<and>
   CPU_A (SBC m s) = (CPU_A s - m - (1 - (if CarryFlag s then 1 else 0))) mod 256 \<and>
   OverflowFlag (SBC m s) =
     ((CPU_A s XOR CPU_A (SBC m s)) AND ((NOT m) XOR CPU_A (SBC m s)) AND 0x80 \<noteq> 0)"
proof -
  define t where "t = CPU_A s - m - (if CarryFlag s then 0 else 1)"
  have c: "CPU_A s - m - (1 - (if CarryFlag s then 1 else 0)) = t" by (simp add: t_def)
  have S: "SBC m s =
      s\<lparr>OverflowFlag :=
          (((CPU_A s XOR t) AND 0x80 \<noteq> 0) \<and> ((CPU_A s XOR m) AND 0x80 \<noteq> 0)),
        CarryFlag := (t \<ge> 0), ZeroFlag := (t AND 0xFF = 0),
        NegativeFlag := ((t AND 0xFF) AND 0x80 \<noteq> 0), CPU_A := t AND 0xFF\<rparr>"
    unfolding SBC_def Let_def t_def by (rule refl)
  have v: "(((CPU_A s XOR t) AND 0x80 \<noteq> 0) \<and> ((CPU_A s XOR m) AND 0x80 \<noteq> 0)) =
      (((CPU_A s XOR (t AND 0xFF)) AND ((NOT m) XOR (t AND 0xFF))) AND 0x80 \<noteq> 0)"
    by (auto simp: and_80_iff bit_and_iff bit_xor_iff bit_not_iff)
  have 1: "CPU_A (SBC m s) = t AND 0xFF" unfolding S by simp
  have 2: "OverflowFlag (SBC m s) =
      (((CPU_A s XOR t) AND 0x80 \<noteq> 0) \<and> ((CPU_A s XOR m) AND 0x80 \<noteq> 0))"
    unfolding S by simp
  show ?thesis unfolding c 1 2 v and.assoc by (simp only: and_FF_mod simp_thms)
qed

text \<open>
  C2.  For an operand byte \<open>M\<close>, \<^verbatim>\<open>SBC\<close> is \<^verbatim>\<open>ADC\<close> with the operand \<open>~M\<close> (as a
  byte): the two leave the same state.  The accumulator becomes the low 8 bits of
  \<open>A - M - (1 - C)\<close> and the overflow flag becomes
  \<open>((A XOR result) AND ((NOT M) XOR result) AND 0x80) \<noteq> 0\<close> for that result.
\<close>

theorem SBC_is_ADC_of_complement:
  assumes "0 \<le> m" "m \<le> 255"
  shows "SBC m s = ADC (NOT m AND 0xFF) s \<and>
    CPU_A (SBC m s) = (CPU_A s - m - (1 - (if CarryFlag s then 1 else 0))) AND 0xFF \<and>
    CPU_A (SBC m s) = (CPU_A s - m - (1 - (if CarryFlag s then 1 else 0))) mod 256 \<and>
    OverflowFlag (SBC m s) =
      ((CPU_A s XOR CPU_A (SBC m s)) AND ((NOT m) XOR CPU_A (SBC m s)) AND 0x80 \<noteq> 0)"
  using SBC_is_ADC[OF assms, of s] SBC_fields[of m s] by blast

theorem SBC_is_ADC_of_complement_witness:
  "(0::int) \<le> 0x03 \<and> (0x03::int) \<le> 255 \<and>
   SBC 0x03 (initial_state\<lparr>CPU_A := 0x05, CarryFlag := True\<rparr>) =
     ADC 0xFC (initial_state\<lparr>CPU_A := 0x05, CarryFlag := True\<rparr>) \<and>
   CPU_A (SBC 0x03 (initial_state\<lparr>CPU_A := 0x05, CarryFlag := True\<rparr>)) = 0x02"
proof -
  have h: "(0::int) \<le> 0x03" "(0x03::int) \<le> 255" by simp_all
  note T = SBC_is_ADC_of_complement[OF h,
      of "initial_state\<lparr>CPU_A := 0x05, CarryFlag := True\<rparr>"]
  have 1: "SBC 0x03 (initial_state\<lparr>CPU_A := 0x05, CarryFlag := True\<rparr>) =
     ADC 0xFC (initial_state\<lparr>CPU_A := 0x05, CarryFlag := True\<rparr>)"
    using T[THEN conjunct1] by simp
  have 2: "CPU_A (SBC 0x03 (initial_state\<lparr>CPU_A := 0x05, CarryFlag := True\<rparr>)) = 0x02"
    using T[THEN conjunct2, THEN conjunct1] by simp
  show ?thesis using h 1 2 by blast
qed

section \<open>ORA\<close>

text \<open>
  C3.  The eight cases the dispatcher comments as \<^verbatim>\<open>ORA\<close> call \<^verbatim>\<open>LSR\<close> with the
  number the addressing mode returned.  With \<open>09 01\<close> at \<open>PC = 0\<close> and \<open>A = 0x02\<close> the
  accumulator stays \<open>0x02\<close> (not \<open>0x02 OR 0x01\<close>), the byte at address 1 is shifted
  from \<open>0x01\<close> to \<open>0x00\<close>, and Z and C are set.
\<close>

theorem ORA_opcodes_run_LSR:
  "dispatch 0x09 s = with_operand Immediate LSR s \<and>
   dispatch 0x0D s = with_operand Absolute LSR s \<and>
   dispatch 0x05 s = with_operand ZeroPage LSR s \<and>
   dispatch 0x01 s = with_operand IndX LSR s \<and>
   dispatch 0x11 s = with_operand IndY LSR s \<and>
   dispatch 0x15 s = with_operand ZeroPageX LSR s \<and>
   dispatch 0x1D s = with_operand AbsoluteX LSR s \<and>
   dispatch 0x19 s = with_operand AbsoluteY LSR s \<and>
   CPU_A ora_program = 0x02 \<and> fst (Memory_read 0x0001 ora_program) = 0x01 \<and>
   CPU_A (decodeAndExecute ora_program) = 0x02 \<and>
   CPU_A (decodeAndExecute ora_program) \<noteq> 0x02 OR 0x01 \<and>
   fst (Memory_read 0x0001 (decodeAndExecute ora_program)) = 0x00 \<and>
   ZeroFlag (decodeAndExecute ora_program) \<and>
   CarryFlag (decodeAndExecute ora_program)"
  by (simp add: dispatch_def ora_program_def decodeAndExecute_def with_operand_def
      Immediate_def LSR_def readMemory_def writeMemory_def Memory_read_def Memory_write_def
      Let_def initial_state_def)

section \<open>JMP indirect\<close>

text \<open>
  C4.  The addressing mode \<^verbatim>\<open>Indirect\<close> already follows the pointer (with the
  page-boundary wrap) and \<^verbatim>\<open>JMP_IND\<close> follows the result again.  For the jump in
  cartridge space the addressing mode yields \<open>0x1234\<close> and the instruction leaves
  \<open>PC = 0x5678\<close>, the word stored where \<open>0x1234\<close> points.  For the jump at \<open>0x1000\<close>
  the opcode has replaced the byte at \<open>0x0000\<close> and the instruction leaves \<open>PC = 0\<close>.
\<close>

theorem JMP_indirect_dereferences_twice:
  "fst (Memory_read 0x8000 jmp_program) = 0x6C \<and>
   fst (Indirect (jmp_program\<lparr>CPU_PC := 0x8001\<rparr>)) = 0x1234 \<and>
   CPU_PC (decodeAndExecute jmp_program) = 0x5678 \<and>
   CPU_PC (decodeAndExecute jmp_program) \<noteq> 0x1234 \<and>
   fst (Memory_read 0x1000 jmp_program_low) = 0x6C \<and>
   fst (Memory_read 0x0000 jmp_program_low) = 0x6C \<and>
   CPU_PC (decodeAndExecute jmp_program_low) = 0x0000"
  by (simp add: jmp_program_def jmp_program_low_def decodeAndExecute_def dispatch_def
      with_operand_def Indirect_def JMP_IND_def readMemory_def Memory_read_def
      Memory_write_def Let_def initial_state_def)

section \<open>Reset\<close>

text \<open>
  C5, as stated, fails.  With the reset vector at \<open>0xFFFC\<close> holding \<open>0xC000\<close> and the interrupt flag clear,
  \<^verbatim>\<open>CPU.reset\<close> leaves \<open>PC = 0x8000\<close> and the interrupt flag clear.
\<close>

theorem reset_ignores_vector:
  "(fst (Memory_read 0xFFFC reset_vector_state) OR
      push_bit 8 (fst (Memory_read 0xFFFD reset_vector_state))) = 0xC000 \<and>
   CPU_PC (CPU_reset reset_vector_state) = 0x8000 \<and>
   CPU_PC (CPU_reset reset_vector_state) \<noteq>
     (fst (Memory_read 0xFFFC reset_vector_state) OR
      push_bit 8 (fst (Memory_read 0xFFFD reset_vector_state))) \<and>
   \<not> InterruptFlag (CPU_reset reset_vector_state)"
  by (simp add: reset_vector_state_def Memory_write_def Memory_read_def Let_def
      initial_state_def CPU_reset_def)

text \<open>
  C5, as the code has it.  \<^verbatim>\<open>CPU.reset\<close> sets SP to \<open>0xFD\<close>, A, X and Y to 0 and PC to
  the fixed address \<open>0x8000\<close>; it leaves every flag, the two memory arrays and the PPU
  registers as they were.
\<close>

theorem reset_sets_registers:
  "CPU_SP (CPU_reset s) = 0xFD \<and> CPU_A (CPU_reset s) = 0 \<and> CPU_X (CPU_reset s) = 0 \<and>
   CPU_Y (CPU_reset s) = 0 \<and> CPU_PC (CPU_reset s) = 0x8000 \<and>
   InterruptFlag (CPU_reset s) = InterruptFlag s \<and>
   BreakFlag (CPU_reset s) = BreakFlag s \<and> CarryFlag (CPU_reset s) = CarryFlag s \<and>
   DecimalModeFlag (CPU_reset s) = DecimalModeFlag s \<and>
   NegativeFlag (CPU_reset s) = NegativeFlag s \<and>
   OverflowFlag (CPU_reset s) = OverflowFlag s \<and> ZeroFlag (CPU_reset s) = ZeroFlag s \<and>
   Memory_data (CPU_reset s) = Memory_data s \<and>
   Memory_ppuMemory (CPU_reset s) = Memory_ppuMemory s \<and>
   PPU_ctrl (CPU_reset s) = PPU_ctrl s \<and> PPU_mask (CPU_reset s) = PPU_mask s \<and>
   PPU_status (CPU_reset s) = PPU_status s \<and> PPU_oamAddr (CPU_reset s) = PPU_oamAddr s \<and>
   PPU_oamData (CPU_reset s) = PPU_oamData s \<and> PPU_scroll (CPU_reset s) = PPU_scroll s \<and>
   PPU_addr (CPU_reset s) = PPU_addr s \<and> PPU_data (CPU_reset s) = PPU_data s \<and>
   PPU_currentScanline (CPU_reset s) = PPU_currentScanline s"
  by (simp add: CPU_reset_def)

section \<open>Reading the PPU status\<close>

text \<open>
  C6.  With bit 7 of \<^verbatim>\<open>PPU.status\<close> set, a bus read of \<open>0x2002\<close> returns the byte of
  \<^verbatim>\<open>Memory.data\<close> at \<open>0x2002\<close> (here 0), not the status, and leaves bit 7 set; so
  does a read of the mirror \<open>0x3FFA\<close>.  \<^verbatim>\<open>PPU.readRegister(0x2002)\<close> returns the
  status and leaves bit 7 set as well.
\<close>

theorem status_read_keeps_vblank:
  "PPU_status vblank_state AND 0x80 = 0x80 \<and>
   fst (Memory_read 0x2002 vblank_state) = 0x00 \<and>
   snd (Memory_read 0x2002 vblank_state) = vblank_state \<and>
   PPU_status (snd (Memory_read 0x2002 vblank_state)) AND 0x80 = 0x80 \<and>
   fst (Memory_read 0x3FFA vblank_state) = 0x00 \<and>
   PPU_status (snd (Memory_read 0x3FFA vblank_state)) AND 0x80 = 0x80 \<and>
   fst (readRegister 0x2002 vblank_state) = 0x80 \<and>
   PPU_status (snd (readRegister 0x2002 vblank_state)) AND 0x80 = 0x80"
  by (simp add: vblank_state_def Memory_read_def readRegister_def Let_def initial_state_def)

section \<open>Bus reads\<close>

text \<open>
  C10.  A bus read returns a value in \<open>[0, 255]\<close> and leaves the whole state (CPU
  registers and flags, both memory arrays, every PPU register) as it was, at every
  address; \<^verbatim>\<open>PPU.readRegister\<close> changes nothing either.
\<close>

theorem bus_read_is_pure:
  "snd (Memory_read a s) = s \<and> 0 \<le> fst (Memory_read a s) \<and> fst (Memory_read a s) \<le> 255 \<and>
   snd (readRegister a s) = s"
proof -
  have u: "0 \<le> uint w \<and> uint w \<le> 255" for w :: "8 word"
    using uint_bounded[of w] by simp
  show ?thesis
    using u by (simp add: Memory_read_def readRegister_def Let_def)
qed

section \<open>RAM mirroring\<close>

lemma small_address: "0 \<le> a \<Longrightarrow> a < 0x2000 \<Longrightarrow> (a::int) AND 0xFFFF = a"
  by (simp add: and_FFFF_mod)

lemma uint_byte: "0 \<le> v \<Longrightarrow> v \<le> 255 \<Longrightarrow> uint (word_of_int (v AND 0xFF) :: 8 word) = v"
  by (simp add: and_FF_mod uint_word_of_int)

lemma Memory_write_ram:
  assumes "0 \<le> a" "a < 0x2000"
  shows "Memory_write a v s =
    s\<lparr>Memory_data := (Memory_data s)(a AND 0x07FF := word_of_int (v AND 0xFF))\<rparr>"
  using assms by (simp add: Memory_write_def Let_def small_address)

lemma Memory_read_ram:
  assumes "0 \<le> a" "a < 0x2000"
  shows "fst (Memory_read a s) = uint (Memory_data s (a AND 0x07FF))"
  using assms by (simp add: Memory_read_def Let_def small_address)

text \<open>
  C8.  After a bus write of a byte \<open>v\<close> to an address \<open>a\<close> below \<open>0x2000\<close>, a bus read
  of any address below \<open>0x2000\<close> with the same low 11 bits returns \<open>v\<close>, and a read of
  any address below \<open>0x2000\<close> with different low 11 bits returns what it returned
  before the write.
\<close>

theorem RAM_is_mirrored:
  assumes "0 \<le> a" "a < 0x2000" "0 \<le> v" "v \<le> 255"
  shows "(0 \<le> a' \<and> a' < 0x2000 \<and> a' AND 0x07FF = a AND 0x07FF \<longrightarrow>
           fst (Memory_read a' (Memory_write a v s)) = v) \<and>
         (0 \<le> a'' \<and> a'' < 0x2000 \<and> a'' AND 0x07FF \<noteq> a AND 0x07FF \<longrightarrow>
           fst (Memory_read a'' (Memory_write a v s)) = fst (Memory_read a'' s))"
  using assms by (simp add: Memory_write_ram Memory_read_ram uint_byte)

theorem RAM_is_mirrored_witness:
  "(0::int) \<le> 0x0005 \<and> (0x0005::int) < 0x2000 \<and> (0::int) \<le> 0x42 \<and> (0x42::int) \<le> 255 \<and>
   (0::int) \<le> 0x1805 \<and> (0x1805::int) < 0x2000 \<and>
   (0x1805::int) AND 0x07FF = 0x0005 AND 0x07FF \<and>
   fst (Memory_read 0x1805 (Memory_write 0x0005 0x42 initial_state)) = 0x42 \<and>
   (0::int) \<le> 0x1806 \<and> (0x1806::int) < 0x2000 \<and>
   (0x1806::int) AND 0x07FF \<noteq> 0x0005 AND 0x07FF \<and>
   fst (Memory_read 0x1806 (Memory_write 0x0005 0x42 initial_state)) =
     fst (Memory_read 0x1806 initial_state)"
proof -
  have h: "(0::int) \<le> 0x0005" "(0x0005::int) < 0x2000" "(0::int) \<le> 0x42" "(0x42::int) \<le> 255"
    by simp_all
  have h1: "(0::int) \<le> 0x1805 \<and> (0x1805::int) < 0x2000 \<and>
      (0x1805::int) AND 0x07FF = 0x0005 AND 0x07FF" by simp
  have h2: "(0::int) \<le> 0x1806 \<and> (0x1806::int) < 0x2000 \<and>
      (0x1806::int) AND 0x07FF \<noteq> 0x0005 AND 0x07FF" by simp
  note T = RAM_is_mirrored[OF h, of "0x1805" initial_state "0x1806"]
  note r1 = T[THEN conjunct1, THEN mp, OF h1]
  note r2 = T[THEN conjunct2, THEN mp, OF h2]
  show ?thesis using h h1 h2 r1 r2 by blast
qed

section \<open>PPU ticks\<close>

lemma div113_next:
  assumes "0 \<le> (i::int)"
  shows "(i + 113) div 113 - (i + 112) div 113 = (if i mod 113 = 0 then 1 else 0)"
proof -
  define q where "q = i div 113"
  define r where "r = i mod 113"
  have i: "i = 113 * q + r" by (simp add: q_def r_def)
  have r: "0 \<le> r" "r < 113" by (simp_all add: r_def)
  have a: "(i + 113) div 113 = q + 1"
    by (rule int_div_pos_eq[of _ _ _ r]) (use i r in simp_all)
  show ?thesis
  proof (cases "r = 0")
    case True
    have "(i + 112) div 113 = q"
      by (rule int_div_pos_eq[of _ _ _ 112]) (use i True in simp_all)
    with a True show ?thesis by (simp add: r_def)
  next
    case False
    have "(i + 112) div 113 = q + 1"
      by (rule int_div_pos_eq[of _ _ _ "r - 1"]) (use i r False in simp_all)
    with a False show ?thesis by (simp add: r_def)
  qed
qed

lemma executeCycles_loop_frame:
  "executeCycles_loop i n s =
     s\<lparr>PPU_currentScanline := PPU_currentScanline (executeCycles_loop i n s)\<rparr>"
proof (induction i n s rule: executeCycles_loop.induct)
  case (1 i cycles s)
  show ?case
  proof (cases "i < cycles")
    case True
    then show ?thesis
      using "1.IH"[OF True]
      by (subst (1 2) executeCycles_loop.simps) (simp add: renderScanline_def split: if_splits)
  next
    case False
    then show ?thesis by (subst (1 2) executeCycles_loop.simps) simp
  qed
qed

lemma executeCycles_loop_scanline:
  "0 \<le> i \<Longrightarrow> PPU_currentScanline (executeCycles_loop i n s) =
     PPU_currentScanline s + (if i < n then (n + 112) div 113 - (i + 112) div 113 else 0)"
proof (induction i n s rule: executeCycles_loop.induct)
  case (1 i cycles s)
  show ?case
  proof (cases "i < cycles")
    case True
    have nx: "(i + 113) div 113 - (i + 112) div 113 = (if i mod 113 = 0 then 1 else 0)"
      using "1.prems" by (rule div113_next)
    have i1: "0 \<le> i + 1" using "1.prems" by simp
    show ?thesis
    proof (cases "i + 1 < cycles")
      case T2: True
      show ?thesis
        using "1.IH"[OF True i1] True T2 nx
        by (subst executeCycles_loop.simps)
           (simp add: renderScanline_def CYCLES_PER_SCANLINE_def split: if_splits)
    next
      case F2: False
      with True have c: "cycles = i + 1" by simp
      show ?thesis
        using "1.IH"[OF True i1] True nx unfolding c
        by (subst executeCycles_loop.simps)
           (simp add: renderScanline_def CYCLES_PER_SCANLINE_def split: if_splits)
    qed
  next
    case False
    then show ?thesis by (subst executeCycles_loop.simps) simp
  qed
qed

lemma executeCycles_one:
  "executeCycles 1 s = s\<lparr>PPU_currentScanline := PPU_currentScanline s + 1\<rparr>"
  by (simp add: executeCycles_def executeCycles_loop.simps[of 0] executeCycles_loop.simps[of 1]
      renderScanline_def CYCLES_PER_SCANLINE_def)

text \<open>
  C7, as stated, fails.  From scanline 261 one tick gives 262: the counter leaves the
  range \<open>[0, 261]\<close> and is not reset.  From the load-time state two successive ticks
  both change the scanline.
\<close>

theorem scanline_leaves_range:
  "PPU_currentScanline last_scanline_state = 261 \<and>
   PPU_currentScanline (executeCycles 1 last_scanline_state) = 262 \<and>
   \<not> PPU_currentScanline (executeCycles 1 last_scanline_state) \<le> 261 \<and>
   PPU_currentScanline initial_state = 0 \<and>
   PPU_currentScanline (executeCycles 1 initial_state) = 1 \<and>
   PPU_currentScanline (executeCycles 1 (executeCycles 1 initial_state)) = 2"
  by (simp add: executeCycles_one last_scanline_state_def initial_state_def)

text \<open>
  C7, as the code has it.  The source keeps no dot counter and no odd/even frame
  toggle, and it never resets the scanline: \<^verbatim>\<open>PPU.executeCycles\<close> changes nothing but
  \<^verbatim>\<open>currentScanline\<close>, and never lowers it, for every number of cycles and every
  state.  How many ticks make up one scanline is not part of this statement.
\<close>

theorem executeCycles_only_raises_scanline:
  "executeCycles n s = s\<lparr>PPU_currentScanline := PPU_currentScanline (executeCycles n s)\<rparr> \<and>
   PPU_currentScanline s \<le> PPU_currentScanline (executeCycles n s)"
proof -
  have f: "executeCycles n s =
      s\<lparr>PPU_currentScanline := PPU_currentScanline (executeCycles n s)\<rparr>"
    unfolding executeCycles_def by (rule executeCycles_loop_frame)
  have c: "PPU_currentScanline (executeCycles n s) =
     PPU_currentScanline s + (if 0 < n then (n + 112) div 113 else 0)"
    unfolding executeCycles_def using executeCycles_loop_scanline[of 0 n s] by simp
  have "0 \<le> (if 0 < n then (n + 112) div 113 else 0)"
    by (simp add: pos_imp_zdiv_nonneg_iff)
  then have m: "PPU_currentScanline s \<le> PPU_currentScanline (executeCycles n s)"
    unfolding c by simp
  show ?thesis using f m by (rule conjI)
qed

section \<open>Loading a ROM\<close>

lemma Memory_write_frame:
  "Memory_write a v s = s\<lparr>Memory_data := Memory_data (Memory_write a v s)\<rparr>"
  by (simp add: Memory_write_def Let_def)

lemma Memory_write_cartridge:
  assumes "0x8000 \<le> a" "a < 0x10000"
  shows "Memory_data (Memory_write a v s) = (Memory_data s)(a := word_of_int (v AND 0xFF))"
proof -
  have "a AND 0xFFFF = a" using assms by (simp add: and_FFFF_mod)
  then show ?thesis using assms by (simp add: Memory_write_def Let_def)
qed

lemma Memory_write_ex: "\<exists>d. Memory_write a v s = s\<lparr>Memory_data := d\<rparr>"
proof -
  have "Memory_write a v s = s\<lparr>Memory_data := Memory_data (Memory_write a v s)\<rparr>"
    by (rule Memory_write_frame)
  then show ?thesis by (rule exI[of _ "Memory_data (Memory_write a v s)"])
qed

lemma loadRom_loop_ex: "\<exists>d. loadRom_loop rom sz i a s = s\<lparr>Memory_data := d\<rparr>"
proof (induction rom sz i a s rule: loadRom_loop.induct)
  case (1 rom sz i a s)
  show ?case
  proof (cases "i < 16 + sz \<and> \<not> (a < 0x8000 \<or> a \<ge> 0x10000)")
    case True
    then have c: "i < 16 + sz" "\<not> (a < 0x8000 \<or> a \<ge> 0x10000)" by simp_all
    define v where "v = (case buffer_at rom i of None \<Rightarrow> 0 | Some b \<Rightarrow> b)"
    obtain d1 where d1: "Memory_write a v s = s\<lparr>Memory_data := d1\<rparr>"
      using Memory_write_ex by blast
    obtain d2 where d2: "loadRom_loop rom sz (i + 1) (a + 1) (Memory_write a v s) =
        (Memory_write a v s)\<lparr>Memory_data := d2\<rparr>"
      using "1.IH"[OF c] unfolding v_def by blast
    have "loadRom_loop rom sz i a s = loadRom_loop rom sz (i + 1) (a + 1) (Memory_write a v s)"
      using c unfolding v_def by (subst loadRom_loop.simps) simp
    also have "\<dots> = s\<lparr>Memory_data := d2\<rparr>" unfolding d2 unfolding d1 by simp
    finally show ?thesis by (rule exI[of _ d2])
  next
    case False
    then have "loadRom_loop rom sz i a s = s"
      by (subst loadRom_loop.simps) auto
    also have "s = s\<lparr>Memory_data := Memory_data s\<rparr>" by simp
    finally show ?thesis by (rule exI[of _ "Memory_data s"])
  qed
qed

lemma loadRom_loop_frame:
  "loadRom_loop rom sz i a s = s\<lparr>Memory_data := Memory_data (loadRom_loop rom sz i a s)\<rparr>"
proof -
  obtain d where d: "loadRom_loop rom sz i a s = s\<lparr>Memory_data := d\<rparr>"
    using loadRom_loop_ex by blast
  show ?thesis unfolding d by simp
qed

lemma loadRom_loop_data:
  "0x8000 \<le> a \<Longrightarrow> Memory_data (loadRom_loop rom sz i a s) x =
     (if a \<le> x \<and> x < 0x10000 \<and> x - a < 16 + sz - i
      then word_of_int ((case buffer_at rom (i + (x - a)) of None \<Rightarrow> 0 | Some b \<Rightarrow> b) AND 0xFF)
      else Memory_data s x)"
proof (induction rom sz i a s rule: loadRom_loop.induct)
  case (1 rom sz i a s)
  show ?case
  proof (cases "i < 16 + sz \<and> \<not> (a < 0x8000 \<or> a \<ge> 0x10000)")
    case True
    then have c: "i < 16 + sz" "\<not> (a < 0x8000 \<or> a \<ge> 0x10000)" by simp_all
    have a1: "0x8000 \<le> a + 1" using "1.prems" by simp
    have w: "Memory_data (Memory_write a v s) = (Memory_data s)(a := word_of_int (v AND 0xFF))" for v
      using c by (intro Memory_write_cartridge) simp_all
    have e: "i + 1 + (x - (a + 1)) = i + (x - a)" by simp
    show ?thesis
      using "1.IH"[OF c a1] c
      by (subst loadRom_loop.simps) (auto simp: w e)
  next
    case False
    then show ?thesis using "1.prems" by (subst loadRom_loop.simps) auto
  qed
qed

lemma uint_eq_numeral_iff: "(uint (w::8 word) = 0x4E) = (w = 0x4E)"
  "(uint (w::8 word) = 0x45) = (w = 0x45)" "(uint (w::8 word) = 0x53) = (w = 0x53)"
  "(uint (w::8 word) = 0x1A) = (w = 0x1A)"
  by (auto simp: word_uint_eq_iff)

lemma magic_check:
  "(buffer_at rom 0 \<noteq> Some 0x4E \<or> buffer_at rom 1 \<noteq> Some 0x45 \<or>
    buffer_at rom 2 \<noteq> Some 0x53 \<or> buffer_at rom 3 \<noteq> Some 0x1A) =
   (\<not> (4 \<le> length rom \<and> rom ! 0 = 0x4E \<and> rom ! 1 = 0x45 \<and> rom ! 2 = 0x53 \<and> rom ! 3 = 0x1A))"
  by (auto simp: buffer_at_def uint_eq_numeral_iff)

lemma word_of_uint_byte: "word_of_int (uint (b::8 word) AND 0xFF) = b"
proof -
  have "uint b mod 256 = uint b" using uint_bounded[of b] by simp
  then show ?thesis by (simp add: and_FF_mod)
qed

lemma written_byte:
  "(word_of_int ((case buffer_at rom j of None \<Rightarrow> 0 | Some b \<Rightarrow> b) AND 0xFF) :: 8 word) =
     (if 0 \<le> j \<and> j < int (length rom) then rom ! nat j else 0)"
  by (simp add: buffer_at_def word_of_uint_byte)

lemma loadRom_rejected:
  "(fst (loadRom rom s) = Some ''Invalid NES ROM file.'') =
     (\<not> (4 \<le> length rom \<and> rom ! 0 = 0x4E \<and> rom ! 1 = 0x45 \<and> rom ! 2 = 0x53 \<and> rom ! 3 = 0x1A))"
  "(fst (loadRom rom s) = None) =
     (4 \<le> length rom \<and> rom ! 0 = 0x4E \<and> rom ! 1 = 0x45 \<and> rom ! 2 = 0x53 \<and> rom ! 3 = 0x1A)"
  "fst (loadRom rom s) = Some ''Invalid NES ROM file.'' \<Longrightarrow> snd (loadRom rom s) = s"
  unfolding loadRom_def magic_check by (auto simp: Let_def split: if_splits)

lemma loadRom_loaded:
  assumes "fst (loadRom rom s) = None" "4 < length rom"
  shows "snd (loadRom rom s) =
           CPU_reset (loadRom_loop rom (16384 * uint (rom ! 4)) 16 0x8000 s)"
  using assms unfolding loadRom_def magic_check
  by (simp add: Let_def buffer_at_def split: if_splits)

lemma loadRom_no_size:
  assumes "fst (loadRom rom s) = None" "length rom = 4"
  shows "snd (loadRom rom s) = CPU_reset s"
  using assms unfolding loadRom_def magic_check
  by (simp add: Let_def buffer_at_def split: if_splits)

lemma CPU_reset_data: "Memory_data (CPU_reset s) = Memory_data s"
  by (simp add: CPU_reset_def)

text \<open>
  C9, as the code has it.  The loader rejects a file (it logs
  \<^verbatim>\<open>Invalid NES ROM file.\<close>, returns early and changes nothing) exactly when the first
  four bytes are not \<open>N, E, S, 0x1A\<close>; it never raises.  Every other file is loaded,
  whatever its mapper number, trainer bit or length: the bytes from file offset 16 on
  go to \<open>0x8000\<close> onward, \<open>16384 * byte 4\<close> of them but none past \<open>0xFFFF\<close>, a byte
  missing from the file is stored as 0, no other cell changes, and the CPU is reset.
\<close>

theorem loadRom_checks_magic_only:
  "((fst (loadRom rom s) = Some ''Invalid NES ROM file.'') =
      (\<not> (4 \<le> length rom \<and> rom ! 0 = 0x4E \<and> rom ! 1 = 0x45 \<and>
          rom ! 2 = 0x53 \<and> rom ! 3 = 0x1A))) \<and>
   ((fst (loadRom rom s) = None) =
      (4 \<le> length rom \<and> rom ! 0 = 0x4E \<and> rom ! 1 = 0x45 \<and>
       rom ! 2 = 0x53 \<and> rom ! 3 = 0x1A)) \<and>
   (fst (loadRom rom s) = Some ''Invalid NES ROM file.'' \<longrightarrow> snd (loadRom rom s) = s) \<and>
   (fst (loadRom rom s) = None \<and> length rom = 4 \<longrightarrow> snd (loadRom rom s) = CPU_reset s) \<and>
   (fst (loadRom rom s) = None \<and> 4 < length rom \<longrightarrow>
      (0 \<le> k \<and> k < 16384 * uint (rom ! 4) \<and> k < 0x8000 \<longrightarrow>
         Memory_data (snd (loadRom rom s)) (0x8000 + k) =
           (if 16 + k < int (length rom) then rom ! nat (16 + k) else 0)) \<and>
      (x < 0x8000 \<or> 0x10000 \<le> x \<or> 0x8000 + 16384 * uint (rom ! 4) \<le> x \<longrightarrow>
         Memory_data (snd (loadRom rom s)) x = Memory_data s x) \<and>
      snd (loadRom rom s) =
        CPU_reset (s\<lparr>Memory_data := Memory_data (snd (loadRom rom s))\<rparr>))"
proof -
  have L: "snd (loadRom rom s) =
        CPU_reset (s\<lparr>Memory_data := Memory_data (snd (loadRom rom s))\<rparr>)"
    if "fst (loadRom rom s) = None" "4 < length rom"
    unfolding loadRom_loaded[OF that] CPU_reset_data
    using loadRom_loop_frame[of rom "16384 * uint (rom ! 4)" 16 "0x8000" s] by simp
  have D: "Memory_data (snd (loadRom rom s)) (0x8000 + k) =
           (if 16 + k < int (length rom) then rom ! nat (16 + k) else 0)"
    if "fst (loadRom rom s) = None" "4 < length rom"
       "0 \<le> k" "k < 16384 * uint (rom ! 4)" "k < 0x8000"
    unfolding loadRom_loaded[OF that(1,2)] CPU_reset_data
    using that(3-5) by (simp add: loadRom_loop_data written_byte)
  have U: "Memory_data (snd (loadRom rom s)) x = Memory_data s x"
    if "fst (loadRom rom s) = None" "4 < length rom"
       "x < 0x8000 \<or> 0x10000 \<le> x \<or> 0x8000 + 16384 * uint (rom ! 4) \<le> x"
    unfolding loadRom_loaded[OF that(1,2)] CPU_reset_data
    using that(3) by (auto simp: loadRom_loop_data)
  show ?thesis
    using loadRom_rejected[of rom s] loadRom_no_size[of rom s] L D U by blast
qed

lemma mapper1_rom_magic:
  "4 \<le> length mapper1_rom \<and> mapper1_rom ! 0 = 0x4E \<and> mapper1_rom ! 1 = 0x45 \<and>
   mapper1_rom ! 2 = 0x53 \<and> mapper1_rom ! 3 = 0x1A"
  by (simp add: mapper1_rom_def)

lemma magic_only_rom_magic:
  "4 \<le> length magic_only_rom \<and> magic_only_rom ! 0 = 0x4E \<and> magic_only_rom ! 1 = 0x45 \<and>
   magic_only_rom ! 2 = 0x53 \<and> magic_only_rom ! 3 = 0x1A"
  by (simp add: magic_only_rom_def)

lemma one_byte_rom_magic:
  "4 \<le> length one_byte_rom \<and> one_byte_rom ! 0 = 0x4E \<and> one_byte_rom ! 1 = 0x45 \<and>
   one_byte_rom ! 2 = 0x53 \<and> one_byte_rom ! 3 = 0x1A"
  by (simp add: one_byte_rom_def)

text \<open>
  C9, as stated, fails.  A file that names mapper 1, a file of four bytes and a file
  that holds one byte of the 16384 its header promises are all loaded without a
  message.
\<close>

theorem loadRom_accepts_bad_files:
  "((uint (mapper1_rom ! 7) AND 0xF0) OR drop_bit 4 (uint (mapper1_rom ! 6))) = 1 \<and>
   fst (loadRom mapper1_rom initial_state) = None \<and>
   int (length magic_only_rom) < 16 \<and>
   fst (loadRom magic_only_rom initial_state) = None \<and>
   int (length one_byte_rom) < 16 + 16384 * uint (one_byte_rom ! 4) \<and>
   fst (loadRom one_byte_rom initial_state) = None"
proof -
  have 1: "fst (loadRom mapper1_rom initial_state) = None"
    using loadRom_rejected(2)[of mapper1_rom initial_state] mapper1_rom_magic by blast
  have 2: "fst (loadRom magic_only_rom initial_state) = None"
    using loadRom_rejected(2)[of magic_only_rom initial_state] magic_only_rom_magic by blast
  have 3: "fst (loadRom one_byte_rom initial_state) = None"
    using loadRom_rejected(2)[of one_byte_rom initial_state] one_byte_rom_magic by blast
  have 4: "((uint (mapper1_rom ! 7) AND 0xF0) OR drop_bit 4 (uint (mapper1_rom ! 6))) = 1"
    by (simp add: mapper1_rom_def)
  have 5: "int (length magic_only_rom) < 16" by (simp add: magic_only_rom_def)
  have 6: "int (length one_byte_rom) < 16 + 16384 * uint (one_byte_rom ! 4)"
    by (simp add: one_byte_rom_def)
  show ?thesis using 1 2 3 4 5 6 by blast
qed

theorem loadRom_checks_magic_only_witness:
  "fst (loadRom one_byte_rom initial_state) = None \<and> 4 < length one_byte_rom \<and>
   Memory_data (snd (loadRom one_byte_rom initial_state)) 0x8000 = 0xEA \<and>
   Memory_data (snd (loadRom one_byte_rom initial_state)) 0x7FFF = 0x00 \<and>
   fst (loadRom [] initial_state) = Some ''Invalid NES ROM file.'' \<and>
   snd (loadRom [] initial_state) = initial_state"
proof -
  note T = loadRom_checks_magic_only[of one_byte_rom initial_state 0 "0x7FFF"]
  note E = loadRom_checks_magic_only[of "[]" initial_state 0 0]
  have f: "fst (loadRom one_byte_rom initial_state) = None"
    using T[THEN conjunct2, THEN conjunct1] one_byte_rom_magic by blast
  have l: "4 < length one_byte_rom" by (simp add: one_byte_rom_def)
  note L = T[THEN conjunct2, THEN conjunct2, THEN conjunct2, THEN conjunct2, THEN mp,
      OF conjI[OF f l]]
  have hk: "(0::int) \<le> 0 \<and> 0 < 16384 * uint (one_byte_rom ! 4) \<and> (0::int) < 0x8000"
    by (simp add: one_byte_rom_def)
  have d: "Memory_data (snd (loadRom one_byte_rom initial_state)) 0x8000 = 0xEA"
    using L[THEN conjunct1, THEN mp, OF hk] by (simp add: one_byte_rom_def)
  have hx: "(0x7FFF::int) < 0x8000 \<or> (0x10000::int) \<le> 0x7FFF \<or>
      0x8000 + 16384 * uint (one_byte_rom ! 4) \<le> 0x7FFF" by simp
  have u: "Memory_data (snd (loadRom one_byte_rom initial_state)) 0x7FFF = 0x00"
    using L[THEN conjunct2, THEN conjunct1, THEN mp, OF hx] by (simp add: initial_state_def)
  have e: "fst (loadRom [] initial_state) = Some ''Invalid NES ROM file.''"
    using E[THEN conjunct1] by simp
  note e' = E[THEN conjunct2, THEN conjunct2, THEN conjunct1, THEN mp, OF e]
  show ?thesis using f l d u e e' by blast
qed

end
